theory Spec2Isabelle
  imports Complex_Main "HOL-Library.Sublist"
begin

section \<open>Numbers and strings of the host language\<close>

text \<open>
  The sources are TypeScript. A value of type \<open>number\<close> is a binary64 floating point
  number; the model keeps it as the rational that it is (\<open>NaN\<close> and the infinities are
  not values of the model). The length of an array or string is a natural number. A
  \<open>string\<close> is a list of characters; a character stands for the code unit of the same
  number, so the model covers the strings whose code units are below 256.
\<close>

type_synonym number = rat

definition Math_round :: "number \<Rightarrow> number" where
  \<comment> \<open>\<open>Math.round\<close>: nearest integer, halves towards plus infinity.\<close>
  "Math_round v = of_int \<lfloor>v + 1 / 2\<rfloor>"

subsection \<open>Binary64 arithmetic\<close>

text \<open>
  An arithmetic operation of the language returns the binary64 number nearest to the exact
  result, a tie going to the one with an even significand. \<open>double x\<close> is that number:
  with \<open>2 ^ e \<le> |x| < 2 ^ (e + 1)\<close>, the multiple of \<open>2 ^ (e - 52)\<close> nearest to \<open>x\<close>.
  The range of the exponent is not bounded in the model (no overflow, no subnormal
  numbers): the counts, percentages and scores computed below are far inside the range.
  A decimal literal such as \<open>0.4\<close> denotes \<open>double (4 / 10)\<close>.

  The coverage analyzer and the release confidence scorer round quotients and weighted
  sums to integers, and there the rounding of each operation decides the integer: their
  models round every operation. The quality scorer and the risk score combine a few fixed
  values, on all of which the rounded and the exact computation give the same integer,
  and the rejection tracker reports its ratios unrounded: their models compute exactly.
\<close>

fun bitLength :: "int \<Rightarrow> int" where
  \<comment> \<open>the number of binary digits of a positive integer\<close>
  "bitLength n = (if n \<le> 0 then 0 else 1 + bitLength (n div 2))"

definition pow2 :: "int \<Rightarrow> rat" where
  "pow2 e = (if e \<ge> 0 then 2 ^ nat e else 1 / 2 ^ nat (- e))"

definition exponent :: "rat \<Rightarrow> int" where
  \<comment> \<open>for \<open>x > 0\<close>: the \<open>e\<close> with \<open>2 ^ e \<le> x < 2 ^ (e + 1)\<close>\<close>
  "exponent x =
     (case quotient_of x of
        (p, q) \<Rightarrow> (let d = bitLength p - bitLength q in if pow2 d \<le> x then d else d - 1))"

definition roundHalfEven :: "rat \<Rightarrow> int" where
  "roundHalfEven m =
     (let f = \<lfloor>m\<rfloor>; r = m - of_int f
      in if r < 1 / 2 then f else if r > 1 / 2 then f + 1 else if even f then f else f + 1)"

definition double :: "rat \<Rightarrow> number" where
  "double x =
     (if x = 0 then 0
      else (let u = pow2 (exponent \<bar>x\<bar> - 52)
            in sgn x * of_int (roundHalfEven (\<bar>x\<bar> / u)) * u))"

definition times64 :: "number \<Rightarrow> number \<Rightarrow> number" where
  "times64 x y = double (x * y)"

definition plus64 :: "number \<Rightarrow> number \<Rightarrow> number" where
  "plus64 x y = double (x + y)"

definition divide64 :: "number \<Rightarrow> number \<Rightarrow> number" where
  "divide64 x y = double (x / y)"

fun startsWith :: "string \<Rightarrow> string \<Rightarrow> bool" where
  "startsWith s [] = True"
| "startsWith [] (c # t) = False"
| "startsWith (a # s) (c # t) = (a = c \<and> startsWith s t)"

fun str_includes :: "string \<Rightarrow> string \<Rightarrow> bool" where
  "str_includes [] t = (t = [])"
| "str_includes (a # s) t = (startsWith (a # s) t \<or> str_includes s t)"

section \<open>Risk classifier (src/risk/risk-classifier.ts)\<close>

datatype RiskLevel = critical | high | medium | low

text \<open>The three-valued union \<open>'high' | 'medium' | 'low'\<close> of the configuration.\<close>

datatype Level3 = High | Medium | Low

fun RiskLevel_string :: "RiskLevel \<Rightarrow> string" where
  "RiskLevel_string critical = ''critical''"
| "RiskLevel_string high = ''high''"
| "RiskLevel_string medium = ''medium''"
| "RiskLevel_string low = ''low''"

fun Level3_string :: "Level3 \<Rightarrow> string" where
  "Level3_string High = ''high''"
| "Level3_string Medium = ''medium''"
| "Level3_string Low = ''low''"

record RiskFactor =
  factor :: string
  weight :: number
  description :: string

record FeatureRiskConfig =
  name :: string
  pattern :: string
  riskLevel :: RiskLevel
  businessImpact :: RiskLevel
  technicalComplexity :: Level3
  changeFrequency :: Level3

text \<open>\<open>Partial<FeatureRiskConfig>\<close>: every field may be absent.\<close>

record PartialFeatureRiskConfig =
  name :: "string option"
  pattern :: "string option"
  riskLevel :: "RiskLevel option"
  businessImpact :: "RiskLevel option"
  technicalComplexity :: "Level3 option"
  changeFrequency :: "Level3 option"

record RiskConfig =
  features :: "FeatureRiskConfig list"
  defaultRiskLevel :: RiskLevel

record RiskClassification =
  featureName :: string
  riskLevel :: RiskLevel
  riskScore :: number
  riskFactors :: "RiskFactor list"
  businessImpact :: string
  technicalComplexity :: string
  changeFrequency :: string

text \<open>
  \<open>new RegExp(pattern, 'i')\<close> belongs to the runtime, not to the repository: it either
  throws a \<open>SyntaxError\<close> (\<open>None\<close>) or yields a regular expression, of which the
  classifier only calls \<open>test\<close> (a predicate on strings). The engine is a parameter of the
  classifier's model.
\<close>

datatype exception = SyntaxError

type_synonym RegExp = "string \<Rightarrow> (string \<Rightarrow> bool) option"

text \<open>
  \<open>Array.prototype.find\<close> with the callback of \<open>findMatchingConfig\<close>: the entries are
  visited in order, the first one whose pattern matches is returned and ends the scan, and
  an exception thrown by the callback leaves \<open>find\<close> and \<open>findMatchingConfig\<close>.
\<close>

fun find_feature :: "RegExp \<Rightarrow> FeatureRiskConfig list \<Rightarrow> string \<Rightarrow> exception + FeatureRiskConfig option" where
  "find_feature newRegExp [] fname = Inr None"
| "find_feature newRegExp (feature # rest) fname =
     (case newRegExp (FeatureRiskConfig.pattern feature) of
        None \<Rightarrow> Inl SyntaxError
      | Some regex \<Rightarrow>
          if regex fname then Inr (Some feature)
          else find_feature newRegExp rest fname)"

definition findMatchingConfig :: "RegExp \<Rightarrow> RiskConfig \<Rightarrow> string \<Rightarrow> exception + FeatureRiskConfig option" where
  "findMatchingConfig newRegExp config fname =
     find_feature newRegExp (features config) fname"

definition calculateRiskFactors :: "string \<Rightarrow> string \<Rightarrow> string \<Rightarrow> RiskFactor list" where
  "calculateRiskFactors impact complexity frequency =
     [ \<lparr>factor = ''Business Impact'', weight = 4 / 10,
        description = impact @ '' impact on business operations''\<rparr>,
       \<lparr>factor = ''Technical Complexity'', weight = 35 / 100,
        description = complexity @ '' technical complexity''\<rparr>,
       \<lparr>factor = ''Change Frequency'', weight = 25 / 100,
        description = frequency @ '' frequency of changes''\<rparr> ]"

definition getImpactScore :: "string \<Rightarrow> number" where
  "getImpactScore descr =
     (if str_includes descr ''critical'' then 100
      else if str_includes descr ''high'' then 75
      else if str_includes descr ''medium'' then 50
      else 25)"

definition getComplexityScore :: "string \<Rightarrow> number" where
  "getComplexityScore descr =
     (if str_includes descr ''high'' then 100
      else if str_includes descr ''medium'' then 60
      else 30)"

definition getFrequencyScore :: "string \<Rightarrow> number" where
  "getFrequencyScore descr =
     (if str_includes descr ''high'' then 100
      else if str_includes descr ''medium'' then 60
      else 30)"

definition description_of :: "RiskFactor list \<Rightarrow> string \<Rightarrow> string" where
  \<comment> \<open>\<open>riskFactors.find((f) => f.factor === n)?.description || ''\<close>\<close>
  "description_of factors n =
     (case find (\<lambda>f. factor f = n) factors of
        None \<Rightarrow> ''''
      | Some f \<Rightarrow> description f)"

definition calculateRiskScore :: "RiskFactor list \<Rightarrow> number" where
  "calculateRiskScore factors =
     (let impactScore = getImpactScore (description_of factors ''Business Impact'');
          complexityScore = getComplexityScore (description_of factors ''Technical Complexity'');
          frequencyScore = getFrequencyScore (description_of factors ''Change Frequency'');
          totalScore = impactScore * (4 / 10) + complexityScore * (35 / 100)
                       + frequencyScore * (25 / 100)
      in Math_round totalScore)"

definition determineRiskLevel :: "number \<Rightarrow> RiskLevel" where
  "determineRiskLevel score =
     (if score \<ge> 85 then critical
      else if score \<ge> 65 then high
      else if score \<ge> 40 then medium
      else low)"

text \<open>
  \<open>a || b || c\<close> on optional values of a union of non-empty string literals: the first
  one that is present.
\<close>

fun orElse :: "'a option \<Rightarrow> 'a option \<Rightarrow> 'a option" where
  "orElse (Some a) b = Some a"
| "orElse None b = b"

definition classifyFeature ::
  "RegExp \<Rightarrow> RiskConfig \<Rightarrow> string \<Rightarrow> PartialFeatureRiskConfig option \<Rightarrow> exception + RiskClassification" where
  "classifyFeature newRegExp config fname ctx =
     (case findMatchingConfig newRegExp config fname of
        Inl e \<Rightarrow> Inl e
      | Inr matchedConfig \<Rightarrow>
          (let impact =
                 (case orElse (Option.bind ctx PartialFeatureRiskConfig.businessImpact)
                         (map_option FeatureRiskConfig.businessImpact matchedConfig) of
                    Some v \<Rightarrow> RiskLevel_string v | None \<Rightarrow> ''medium'');
               complexity =
                 (case orElse (Option.bind ctx PartialFeatureRiskConfig.technicalComplexity)
                         (map_option FeatureRiskConfig.technicalComplexity matchedConfig) of
                    Some v \<Rightarrow> Level3_string v | None \<Rightarrow> ''medium'');
               frequency =
                 (case orElse (Option.bind ctx PartialFeatureRiskConfig.changeFrequency)
                         (map_option FeatureRiskConfig.changeFrequency matchedConfig) of
                    Some v \<Rightarrow> Level3_string v | None \<Rightarrow> ''medium'');
               factors = calculateRiskFactors impact complexity frequency;
               score = calculateRiskScore factors;
               level =
                 (case orElse (map_option FeatureRiskConfig.riskLevel matchedConfig)
                         (Option.bind ctx PartialFeatureRiskConfig.riskLevel) of
                    Some v \<Rightarrow> v | None \<Rightarrow> determineRiskLevel score)
           in Inr \<lparr>featureName = fname, riskLevel = level, riskScore = score,
                    riskFactors = factors, businessImpact = impact,
                    technicalComplexity = complexity,
                    changeFrequency = frequency\<rparr>))"

section \<open>Risk coverage analyzer (src/risk/risk-coverage-analyzer.ts, in src/unnamed/part_009)\<close>

record RiskCoverage =
  totalFeatures :: nat
  testedFeatures :: nat
  coveragePercentage :: number
  untestedFeatures :: "string list"

datatype Priority = urgent | high_priority | medium_priority | low_priority

record CoverageGap =
  featureName :: string
  riskLevel :: RiskLevel
  riskScore :: number
  priority :: Priority
  recommendation :: string

record FeatureTestMapping =
  featureName :: string
  riskClassification :: RiskClassification
  testFiles :: "string list"
  isTested :: bool

text \<open>\<open>coverageByRisk : Record<RiskLevel, RiskCoverage>\<close> is a function of the level.\<close>

record CoverageMetrics =
  totalFeatures :: nat
  testedFeatures :: nat
  coverageByRisk :: "RiskLevel \<Rightarrow> RiskCoverage"
  overallCoverage :: number
  riskWeightedCoverage :: number
  gaps :: "CoverageGap list"

definition calculateRiskLevelCoverage :: "FeatureTestMapping list \<Rightarrow> RiskLevel \<Rightarrow> RiskCoverage" where
  "calculateRiskLevelCoverage mappings level =
     (let featuresAtRisk =
            filter (\<lambda>m. RiskClassification.riskLevel (riskClassification m) = level) mappings;
          testedAtRisk = filter (\<lambda>m. isTested m) featuresAtRisk;
          untested = map FeatureTestMapping.featureName
                       (filter (\<lambda>m. \<not> isTested m) featuresAtRisk)
      in \<lparr>RiskCoverage.totalFeatures = length featuresAtRisk,
          RiskCoverage.testedFeatures = length testedAtRisk,
          coveragePercentage =
            (if length featuresAtRisk > 0
             then times64 (divide64 (of_nat (length testedAtRisk))
                                    (of_nat (length featuresAtRisk))) 100
             else 0),
          untestedFeatures = untested\<rparr>)"

definition calculateRiskWeightedCoverage :: "(RiskLevel \<Rightarrow> RiskCoverage) \<Rightarrow> number" where
  "calculateRiskWeightedCoverage byRisk =
     (let weightedScore =
            plus64
              (plus64
                 (plus64 (times64 (coveragePercentage (byRisk critical)) (double (4 / 10)))
                         (times64 (coveragePercentage (byRisk high)) (double (3 / 10))))
                 (times64 (coveragePercentage (byRisk medium)) (double (2 / 10))))
              (times64 (coveragePercentage (byRisk low)) (double (1 / 10)))
      in Math_round weightedScore)"

definition determinePriority :: "RiskLevel \<Rightarrow> number \<Rightarrow> Priority" where
  "determinePriority level score =
     (if level = critical \<or> score \<ge> 90 then urgent
      else if level = high \<or> score \<ge> 70 then high_priority
      else if level = medium \<or> score \<ge> 50 then medium_priority
      else low_priority)"

definition generateRecommendation :: "FeatureTestMapping \<Rightarrow> string" where
  "generateRecommendation feature =
     (case RiskClassification.riskLevel (riskClassification feature) of
        critical \<Rightarrow>
          ''URGENT: Create comprehensive test suite immediately. This feature is mission-critical.''
      | high \<Rightarrow>
          ''HIGH PRIORITY: Add test coverage as soon as possible. Important for system stability.''
      | medium \<Rightarrow> ''MEDIUM PRIORITY: Add test coverage in the next sprint.''
      | low \<Rightarrow> ''LOW PRIORITY: Consider adding basic test coverage when time permits.'')"

fun priorityOrder :: "Priority \<Rightarrow> nat" where
  "priorityOrder urgent = 0"
| "priorityOrder high_priority = 1"
| "priorityOrder medium_priority = 2"
| "priorityOrder low_priority = 3"

text \<open>\<open>Array.prototype.sort\<close> is stable; so is the insertion sort \<open>sort_key\<close>.\<close>

definition identifyCoverageGaps :: "FeatureTestMapping list \<Rightarrow> CoverageGap list" where
  "identifyCoverageGaps mappings =
     (let untested = filter (\<lambda>m. \<not> isTested m) mappings
      in sort_key (\<lambda>g. priorityOrder (priority g))
           (map (\<lambda>feature.
                  \<lparr>CoverageGap.featureName = FeatureTestMapping.featureName feature,
                   CoverageGap.riskLevel = RiskClassification.riskLevel (riskClassification feature),
                   CoverageGap.riskScore = RiskClassification.riskScore (riskClassification feature),
                   priority = determinePriority
                                (RiskClassification.riskLevel (riskClassification feature))
                                (RiskClassification.riskScore (riskClassification feature)),
                   recommendation = generateRecommendation feature\<rparr>)
              untested))"

definition analyzeCoverage :: "FeatureTestMapping list \<Rightarrow> CoverageMetrics" where
  "analyzeCoverage mappings =
     (let total = length mappings;
          tested = length (filter (\<lambda>m. isTested m) mappings);
          overall = (if total > 0 then times64 (divide64 (of_nat tested) (of_nat total)) 100
                     else 0);
          byRisk = (\<lambda>level. calculateRiskLevelCoverage mappings level);
          weighted = calculateRiskWeightedCoverage byRisk
      in \<lparr>totalFeatures = total, testedFeatures = tested, coverageByRisk = byRisk,
          overallCoverage = overall, riskWeightedCoverage = weighted,
          gaps = identifyCoverageGaps mappings\<rparr>)"

section \<open>Pattern matching on source text\<close>

text \<open>
  The quality scorer only searches its input for fixed patterns. A pattern is modelled by
  a matcher: applied to the text that starts at a position, it returns the length of the
  match that the regular expression finds at that position, if there is one.
\<close>

type_synonym matcher = "string \<Rightarrow> nat option"

definition lit :: "string \<Rightarrow> matcher" where
  \<comment> \<open>a pattern without operators: the string itself\<close>
  "lit t s = (if startsWith s t then Some (length t) else None)"

definition toUpper :: "char \<Rightarrow> char" where
  "toUpper c =
     (case map_of (zip ''abcdefghijklmnopqrstuvwxyz'' ''ABCDEFGHIJKLMNOPQRSTUVWXYZ'') c of
        Some u \<Rightarrow> u
      | None \<Rightarrow> c)"

fun startsWith_i :: "string \<Rightarrow> string \<Rightarrow> bool" where
  "startsWith_i s [] = True"
| "startsWith_i [] (c # t) = False"
| "startsWith_i (a # s) (c # t) = (toUpper a = toUpper c \<and> startsWith_i s t)"

definition lit_i :: "string \<Rightarrow> matcher" where
  \<comment> \<open>the same under the flag \<open>i\<close>; the patterns below have ASCII letters only\<close>
  "lit_i t s = (if startsWith_i s t then Some (length t) else None)"

fun alt :: "matcher list \<Rightarrow> matcher" where
  \<comment> \<open>\<open>a|b|c\<close>: the first alternative that matches\<close>
  "alt [] s = None"
| "alt (m # ms) s = (case m s of Some n \<Rightarrow> Some n | None \<Rightarrow> alt ms s)"

text \<open>\<open>regex.test(s)\<close>: some position of \<open>s\<close> has a match.\<close>

fun regex_test :: "matcher \<Rightarrow> string \<Rightarrow> bool" where
  "regex_test m [] = (m [] \<noteq> None)"
| "regex_test m (a # s) = (m (a # s) \<noteq> None \<or> regex_test m s)"

text \<open>
  \<open>s.match(/.../g)\<close>: the matched substrings from left to right; the scan resumes where
  a match ended (the counter \<open>k\<close> is the number of characters still covered by the last
  match). None of the patterns below matches the empty string.
\<close>

fun match_g :: "matcher \<Rightarrow> nat \<Rightarrow> string \<Rightarrow> string list" where
  "match_g m k [] = []"
| "match_g m (Suc k) (a # s) = match_g m k s"
| "match_g m 0 (a # s) =
     (case m (a # s) of
        None \<Rightarrow> match_g m 0 s
      | Some n \<Rightarrow> take n (a # s) # match_g m (n - 1) s)"

definition match_all :: "matcher \<Rightarrow> string \<Rightarrow> string list" where
  \<comment> \<open>\<open>s.match(/.../g) || []\<close>\<close>
  "match_all m s = match_g m 0 s"

text \<open>\<open>s.replace(/.../g, '')\<close>: the text without the matched substrings.\<close>

fun remove_g :: "matcher \<Rightarrow> nat \<Rightarrow> string \<Rightarrow> string" where
  "remove_g m k [] = []"
| "remove_g m (Suc k) (a # s) = remove_g m k s"
| "remove_g m 0 (a # s) =
     (case m (a # s) of
        None \<Rightarrow> a # remove_g m 0 s
      | Some 0 \<Rightarrow> a # remove_g m 0 s
      | Some (Suc n) \<Rightarrow> remove_g m n s)"

text \<open>\<open>s.split(c)\<close> at a one-character separator, and \<open>s.split(t)[0]\<close>.\<close>

fun split_char :: "char \<Rightarrow> string \<Rightarrow> string list" where
  "split_char d [] = [[]]"
| "split_char d (a # s) =
     (if a = d then [] # split_char d s
      else (case split_char d s of
              l # ls \<Rightarrow> (a # l) # ls
            | [] \<Rightarrow> [[a]]))"

fun before_first :: "string \<Rightarrow> string \<Rightarrow> string" where
  "before_first t [] = []"
| "before_first t (a # s) = (if startsWith (a # s) t then [] else a # before_first t s)"

definition isWhiteSpace :: "char \<Rightarrow> bool" where
  \<comment> \<open>white space and line terminators below 256: TAB, LF, VT, FF, CR, SP, NBSP\<close>
  "isWhiteSpace c = (c \<in> set [CHR 0x09, CHR 0x0A, CHR 0x0B, CHR 0x0C, CHR 0x0D, CHR 0x20, CHR 0xA0])"

definition trim :: "string \<Rightarrow> string" where
  "trim s = rev (dropWhile isWhiteSpace (rev (dropWhile isWhiteSpace s)))"

definition endsWith :: "string \<Rightarrow> string \<Rightarrow> bool" where
  "endsWith s t = startsWith (rev s) (rev t)"

definition isDigit :: "char \<Rightarrow> bool" where
  "isDigit c = (c \<in> set ''0123456789'')"

definition squote :: char where "squote = CHR 0x27"
definition dquote :: char where "dquote = CHR 0x22"

text \<open>\<open>\d{3,}\<close>\<close>

definition digits3 :: matcher where
  "digits3 s = (let n = length (takeWhile isDigit s) in if n \<ge> 3 then Some n else None)"

text \<open>\<open>cy\.wait\(\d+\)\<close>: after the digits only the closing bracket can follow.\<close>

definition cy_wait_number :: matcher where
  "cy_wait_number s =
     (if startsWith s ''cy.wait('' then
        (let r = drop 8 s; ds = takeWhile isDigit r
         in if ds \<noteq> [] \<and> startsWith (dropWhile isDigit r) '')''
            then Some (8 + length ds + 1) else None)
      else None)"

text \<open>\<open>\.(?!should|and|then)\<close>: a dot that none of the three words follows.\<close>

definition dot_not_chained :: matcher where
  "dot_not_chained s =
     (case s of
        [] \<Rightarrow> None
      | a # r \<Rightarrow>
          if a = CHR ''.'' \<and> \<not> (startsWith r ''should'' \<or> startsWith r ''and'' \<or> startsWith r ''then'')
          then Some 1 else None)"

text \<open>
  \<open>it\(['"]([^'"]+)['"]\<close>: \<open>it(\<close>, a quote, one or more characters that are not quotes,
  a quote. The class excludes both quotes, so the run of characters ends at the first
  quote, or the match fails. The match is the whole of it, the description is its group 1.
\<close>

definition isQuote :: "char \<Rightarrow> bool" where
  "isQuote c = (c = squote \<or> c = dquote)"

definition it_description :: matcher where
  "it_description s =
     (if startsWith s ''it('' then
        (case drop 3 s of
           [] \<Rightarrow> None
         | q # r \<Rightarrow>
             (let d = takeWhile (\<lambda>c. \<not> isQuote c) r
              in if isQuote q \<and> d \<noteq> [] \<and> dropWhile (\<lambda>c. \<not> isQuote c) r \<noteq> []
                 then Some (3 + 1 + length d + 1) else None))
      else None)"

section \<open>Test quality scorer (src/ai/test-quality-scorer.ts, in src/unnamed/part_011)\<close>

datatype IssueSeverity = error | warning | info

record QualityIssue =
  severity :: IssueSeverity
  category :: string
  message :: string
  line :: "number option"

text \<open>
  Each check starts from 100, and a finding pushes one issue onto the shared list and
  subtracts its points: the pair of the running score and the list is passed along.
\<close>

definition deduct ::
  "bool \<Rightarrow> number \<Rightarrow> IssueSeverity \<Rightarrow> string \<Rightarrow> string \<Rightarrow>
   number \<times> QualityIssue list \<Rightarrow> number \<times> QualityIssue list" where
  "deduct found points sev cat msg st =
     (if found
      then (fst st - points,
            snd st @ [\<lparr>severity = sev, category = cat, message = msg, line = None\<rparr>])
      else st)"

definition checkSyntax :: "string \<Rightarrow> QualityIssue list \<Rightarrow> number \<times> QualityIssue list" where
  "checkSyntax testCode iss =
     (let st = (100, iss);
          st = deduct (\<not> str_includes testCode ''describe('') 30
                 error ''syntax'' ''Missing describe block'' st;
          st = deduct (\<not> str_includes testCode ''it('') 30
                 error ''syntax'' ''Missing it/test block'' st;
          singleQuotes = length (match_all (lit [squote]) testCode);
          doubleQuotes = length (match_all (lit [dquote]) testCode);
          st = deduct (singleQuotes > 0 \<and> doubleQuotes > 0) 5
                 warning ''syntax'' ''Inconsistent quote usage'' st;
          lines = split_char CHR 0x0A testCode;
          codeLines = filter (\<lambda>l. trim l \<noteq> [] \<and> \<not> startsWith (trim l) ''//'') lines;
          linesWithSemicolon =
            filter (\<lambda>l. endsWith (trim l) '';'' \<or> endsWith (trim l) ''{'' \<or> endsWith (trim l) ''}'')
              codeLines;
          st = deduct ((of_nat (length linesWithSemicolon) :: number)
                         < of_nat (length codeLines) * (5 / 10)) 5
                 info ''syntax'' ''Missing semicolons in some statements'' st
      in (max 0 (fst st), snd st))"

definition checkCoverage :: "string \<Rightarrow> QualityIssue list \<Rightarrow> number \<times> QualityIssue list" where
  "checkCoverage testCode iss =
     (let st = (100, iss);
          itBlocks = length (match_all (lit ''it('') testCode);
          st = deduct (itBlocks < 2) 20
                 warning ''coverage'' ''Only one test case found. Consider adding more scenarios.'' st;
          hasEdgeCases =
            regex_test (alt (map lit_i [''edge'', ''boundary'', ''limit'', ''empty'', ''null'',
                                        ''undefined'', ''invalid''])) testCode;
          st = deduct (\<not> hasEdgeCases) 15
                 warning ''coverage'' ''No edge case testing detected'' st;
          hasErrorHandling =
            regex_test (alt (map lit_i [''error'', ''fail'', ''reject'', ''catch'', ''should.not'']))
              testCode;
          st = deduct (\<not> hasErrorHandling) 10
                 info ''coverage'' ''No error handling scenarios found'' st;
          hasSetup = regex_test (alt [lit ''beforeEach'', lit ''before('']) testCode;
          st = deduct (\<not> hasSetup) 5
                 info ''coverage'' ''No setup hooks (beforeEach) found'' st
      in (max 0 (fst st), snd st))"

definition checkAssertions :: "string \<Rightarrow> QualityIssue list \<Rightarrow> number \<times> QualityIssue list" where
  "checkAssertions testCode iss =
     (let st = (100, iss);
          assertions = length (match_all (alt [lit ''.should('', lit ''.expect('']) testCode);
          itBlocks = length (match_all (lit ''it('') testCode);
          st = (if assertions = 0
                then deduct True 50 error ''assertions'' ''No assertions found in test'' st
                else deduct (assertions < itBlocks) 20
                       warning ''assertions'' ''Some test cases may be missing assertions'' st);
          hasWeakAssertions =
            regex_test (alt [lit ''should('exist')'', lit ''should('be.visible')'']) testCode;
          hasStrongAssertions =
            regex_test (alt [lit (''should('equal'' @ [squote]), lit (''should('contain'' @ [squote]),
                             lit (''should('have.length'' @ [squote])]) testCode;
          st = deduct (hasWeakAssertions \<and> \<not> hasStrongAssertions) 15
                 warning ''assertions''
                 ''Only weak assertions found. Consider adding more specific assertions.'' st;
          avgAssertionsPerTest = (of_nat assertions :: number) / of_nat (max itBlocks 1);
          st = deduct (avgAssertionsPerTest < 2) 10
                 info ''assertions'' ''Consider adding more assertions per test case'' st
      in (max 0 (fst st), snd st))"

definition checkMaintainability :: "string \<Rightarrow> QualityIssue list \<Rightarrow> number \<times> QualityIssue list" where
  "checkMaintainability testCode iss =
     (let st = (100, iss);
          commentLines = length (match_all (lit ''//'') testCode);
          totalLines = length (split_char CHR 0x0A testCode);
          commentRatio = (of_nat commentLines :: number) / of_nat totalLines;
          st = deduct (commentRatio < 1 / 10) 10
                 info ''maintainability'' ''Consider adding more comments for clarity'' st;
          hasMagicNumbers =
            regex_test digits3 (remove_g (alt [lit_i ''timeout'', lit_i ''wait'']) 0 testCode);
          st = deduct hasMagicNumbers 15
                 warning ''maintainability'' ''Magic numbers detected. Consider using constants.'' st;
          hasHardcodedUrls = regex_test (alt [lit ''http://'', lit ''https://'']) testCode;
          st = deduct hasHardcodedUrls 15
                 warning ''maintainability''
                 ''Hardcoded URLs found. Use baseUrl or environment variables.'' st;
          descriptions = match_all it_description testCode;
          hasGoodDescriptions = list_all (\<lambda>d. length d > 20) descriptions;
          st = deduct (\<not> hasGoodDescriptions) 5
                 info ''maintainability'' ''Some test descriptions are too short'' st
      in (max 0 (fst st), snd st))"

definition checkBestPractices :: "string \<Rightarrow> QualityIssue list \<Rightarrow> number \<times> QualityIssue list" where
  "checkBestPractices testCode iss =
     (let st = (100, iss);
          hasDataTestId = regex_test (lit ''data-testid'') testCode;
          hasFragileSelectors =
            regex_test (alt [lit ''.class('', lit ''.id('', lit ''#'', dot_not_chained]) testCode;
          st = deduct (\<not> hasDataTestId \<and> hasFragileSelectors) 20
                 warning ''best-practices''
                 ''Using fragile selectors. Prefer data-testid attributes.'' st;
          hasWait = regex_test cy_wait_number testCode;
          st = deduct hasWait 15
                 warning ''best-practices''
                 ''Hard waits detected. Use implicit waits or assertions instead.'' st;
          hasCustomCommands =
            regex_test (alt [lit ''cy.login'', lit ''cy.addToCart'', lit ''cy.logout'']) testCode;
          hasRepetitiveCode = length (match_all (lit ''cy.get'') testCode) + 1 > 10;
          st = deduct (\<not> hasCustomCommands \<and> hasRepetitiveCode) 10
                 info ''best-practices''
                 ''Consider using custom commands for repetitive actions'' st;
          hasSharedState =
            regex_test (alt [lit ''let '', lit ''var '']) (before_first ''describe'' testCode);
          st = deduct hasSharedState 15
                 warning ''best-practices''
                 ''Shared state detected. Ensure proper test isolation.'' st
      in (max 0 (fst st), snd st))"

record QualityMetrics =
  syntaxScore :: number
  coverageScore :: number
  assertionScore :: number
  maintainabilityScore :: number
  bestPracticesScore :: number
  overallScore :: number
  issues :: "QualityIssue list"

definition scoreTest :: "string \<Rightarrow> QualityMetrics" where
  "scoreTest testCode =
     (let (syntax, iss) = checkSyntax testCode [];
          (coverage, iss) = checkCoverage testCode iss;
          (assertion, iss) = checkAssertions testCode iss;
          (maintainability, iss) = checkMaintainability testCode iss;
          (bestPractices, iss) = checkBestPractices testCode iss;
          overall = Math_round (syntax * (20 / 100) + coverage * (25 / 100) + assertion * (25 / 100)
                                + maintainability * (15 / 100) + bestPractices * (15 / 100))
      in \<lparr>syntaxScore = syntax, coverageScore = coverage, assertionScore = assertion,
          maintainabilityScore = maintainability, bestPracticesScore = bestPractices,
          overallScore = overall, issues = iss\<rparr>)"

section \<open>Release confidence scorer (src/quality-gates/release-confidence-scorer.ts)\<close>

datatype Status = excellent | good | fair | poor

record ComponentScore =
  score :: number
  weight :: number
  weightedScore :: number
  status :: Status

record ConfidenceComponents =
  testPassRate :: ComponentScore
  riskCoverage :: ComponentScore
  testQuality :: ComponentScore
  humanValidationRate :: ComponentScore

datatype ReleaseRecommendation =
  ready_to_release | proceed_with_caution | not_recommended | blocked

text \<open>\<open>calculatedAt\<close> is a \<open>Date\<close>: its time value, in milliseconds since the epoch.\<close>

record ReleaseConfidenceScore =
  overallScore :: number
  components :: ConfidenceComponents
  recommendation :: ReleaseRecommendation
  details :: string
  calculatedAt :: int

record TestResults =
  totalTests :: number
  passedTests :: number
  failedTests :: number
  skippedTests :: number

record ValidationStats =
  totalValidations :: number
  approvedTests :: number
  rejectedTests :: number
  autoApprovedTests :: number

record ReleaseConfidenceInput =
  testResults :: TestResults
  coverageMetrics :: CoverageMetrics
  qualityMetrics :: "QualityMetrics list"
  validationStats :: ValidationStats

definition weights_testPassRate :: number where "weights_testPassRate = double (4 / 10)"
definition weights_riskCoverage :: number where "weights_riskCoverage = double (3 / 10)"
definition weights_testQuality :: number where "weights_testQuality = double (2 / 10)"
definition weights_humanValidationRate :: number where "weights_humanValidationRate = double (1 / 10)"

definition getStatus :: "number \<Rightarrow> Status" where
  "getStatus v =
     (if v \<ge> 90 then excellent
      else if v \<ge> 75 then good
      else if v \<ge> 60 then fair
      else poor)"

definition calculateTestPassRate :: "TestResults \<Rightarrow> ComponentScore" where
  "calculateTestPassRate results =
     (let passRate = (if totalTests results > 0
                      then times64 (divide64 (passedTests results) (totalTests results)) 100
                      else 0);
          v = Math_round passRate
      in \<lparr>score = v, weight = weights_testPassRate,
          weightedScore = times64 v weights_testPassRate, status = getStatus v\<rparr>)"

definition calculateRiskCoverage :: "CoverageMetrics \<Rightarrow> ComponentScore" where
  "calculateRiskCoverage metrics =
     (let v = riskWeightedCoverage metrics
      in \<lparr>score = v, weight = weights_riskCoverage,
          weightedScore = times64 v weights_riskCoverage, status = getStatus v\<rparr>)"

definition calculateTestQuality :: "QualityMetrics list \<Rightarrow> ComponentScore" where
  "calculateTestQuality metrics =
     (if length metrics = 0
      then \<lparr>score = 0, weight = weights_testQuality, weightedScore = 0, status = poor\<rparr>
      else
        (let avgQuality =
               divide64 (foldl (\<lambda>sum m. plus64 sum (QualityMetrics.overallScore m)) 0 metrics)
                        (of_nat (length metrics));
             v = Math_round avgQuality
         in \<lparr>score = v, weight = weights_testQuality,
             weightedScore = times64 v weights_testQuality, status = getStatus v\<rparr>))"

definition calculateHumanValidationRate :: "ValidationStats \<Rightarrow> ComponentScore" where
  "calculateHumanValidationRate stats =
     (if totalValidations stats = 0
      then \<lparr>score = 100, weight = weights_humanValidationRate,
            weightedScore = times64 100 weights_humanValidationRate, status = excellent\<rparr>
      else
        (let validationRate =
               times64 (divide64 (approvedTests stats) (totalValidations stats)) 100;
             v = Math_round validationRate
         in \<lparr>score = v, weight = weights_humanValidationRate,
             weightedScore = times64 v weights_humanValidationRate, status = getStatus v\<rparr>))"

definition determineRecommendation :: "number \<Rightarrow> ConfidenceComponents \<Rightarrow> ReleaseRecommendation" where
  "determineRecommendation overall comps =
     (if score (testPassRate comps) < 80 then blocked
      else if score (riskCoverage comps) < 70 then blocked
      else if overall \<ge> 85 then ready_to_release
      else if overall \<ge> 70 then proceed_with_caution
      else if overall \<ge> 60 then not_recommended
      else blocked)"

fun Status_string :: "Status \<Rightarrow> string" where
  "Status_string excellent = ''excellent''"
| "Status_string good = ''good''"
| "Status_string fair = ''fair''"
| "Status_string poor = ''poor''"

text \<open>
  A template literal renders a number with the runtime's number-to-string conversion: the
  parameter \<open>str\<close> of the functions that build text. \<open>join\<close> is \<open>Array.prototype.join\<close>.
\<close>

fun join :: "string list \<Rightarrow> string \<Rightarrow> string" where
  "join [] sep = []"
| "join [x] sep = x"
| "join (x # y # xs) sep = x @ sep @ join (y # xs) sep"

definition generateDetails :: "(number \<Rightarrow> string) \<Rightarrow> ConfidenceComponents \<Rightarrow> string" where
  "generateDetails str comps =
     join
       [ ''Test Pass Rate: '' @ str (score (testPassRate comps)) @ ''% (''
           @ Status_string (status (testPassRate comps)) @ '')'',
         ''Risk Coverage: '' @ str (score (riskCoverage comps)) @ ''/100 (''
           @ Status_string (status (riskCoverage comps)) @ '')'',
         ''Test Quality: '' @ str (score (testQuality comps)) @ ''/100 (''
           @ Status_string (status (testQuality comps)) @ '')'',
         ''Human Validation: '' @ str (score (humanValidationRate comps)) @ ''% (''
           @ Status_string (status (humanValidationRate comps)) @ '')'' ]
       [CHR 0x0A]"

text \<open>\<open>now\<close> is the clock reading that \<open>new Date()\<close> returns.\<close>

definition calculateConfidence ::
  "(number \<Rightarrow> string) \<Rightarrow> int \<Rightarrow> ReleaseConfidenceInput \<Rightarrow> ReleaseConfidenceScore" where
  "calculateConfidence str now input =
     (let passRate = calculateTestPassRate (testResults input);
          coverage = calculateRiskCoverage (coverageMetrics input);
          quality = calculateTestQuality (qualityMetrics input);
          validation = calculateHumanValidationRate (validationStats input);
          overall = Math_round
                      (plus64 (plus64 (plus64 (weightedScore passRate) (weightedScore coverage))
                                      (weightedScore quality))
                              (weightedScore validation));
          comps = \<lparr>testPassRate = passRate, riskCoverage = coverage, testQuality = quality,
                   humanValidationRate = validation\<rparr>
      in \<lparr>overallScore = overall, components = comps,
          recommendation = determineRecommendation overall comps,
          details = generateDetails str comps, calculatedAt = now\<rparr>)"

section \<open>Pull request gate (src/quality-gates/pr-validation-gate.ts)\<close>

text \<open>
  The severity of a gate is the union \<open>'critical' | 'high' | 'medium' | 'low'\<close>, the type
  \<open>RiskLevel\<close>. The three signs that open a gate's message (a check mark, a cross and a
  warning sign, all beyond code unit 255) are kept as their UTF-8 bytes; no function looks
  into a message.
\<close>

record QualityGateResult =
  gateName :: string
  passed :: bool
  score :: number
  threshold :: number
  message :: string
  severity :: RiskLevel

record PRValidationResult =
  overallPassed :: bool
  gates :: "QualityGateResult list"
  confidence :: ReleaseConfidenceScore
  blockers :: "string list"
  warnings :: "string list"
  summary :: string

definition check_mark :: string where "check_mark = [CHR 0xE2, CHR 0x9C, CHR 0x85]"
definition cross_mark :: string where "cross_mark = [CHR 0xE2, CHR 0x9D, CHR 0x8C]"
definition warning_sign :: string where
  "warning_sign = [CHR 0xE2, CHR 0x9A, CHR 0xA0, CHR 0xEF, CHR 0xB8, CHR 0x8F]"

definition minTestPassRate :: number where "minTestPassRate = 80"
definition minRiskCoverage :: number where "minRiskCoverage = 80"
definition minTestQuality :: number where "minTestQuality = 70"
definition minConfidenceScore :: number where "minConfidenceScore = 75"

definition validateTestPassRate :: "(number \<Rightarrow> string) \<Rightarrow> number \<Rightarrow> number \<Rightarrow> QualityGateResult" where
  "validateTestPassRate str v limit =
     (let ok = (v \<ge> limit)
      in \<lparr>gateName = ''Test Pass Rate'', passed = ok, score = v, threshold = limit,
          message =
            (if ok
             then check_mark @ '' Test pass rate ('' @ str v @ ''%) meets threshold (''
                    @ str limit @ ''%)''
             else cross_mark @ '' Test pass rate ('' @ str v @ ''%) below threshold (''
                    @ str limit @ ''%)''),
          severity = critical\<rparr>)"

definition validateRiskCoverage :: "(number \<Rightarrow> string) \<Rightarrow> number \<Rightarrow> number \<Rightarrow> QualityGateResult" where
  "validateRiskCoverage str v limit =
     (let ok = (v \<ge> limit)
      in \<lparr>gateName = ''Risk Coverage'', passed = ok, score = v, threshold = limit,
          message =
            (if ok
             then check_mark @ '' Risk coverage ('' @ str v @ ''/100) meets threshold (''
                    @ str limit @ ''/100)''
             else cross_mark @ '' Risk coverage ('' @ str v @ ''/100) below threshold (''
                    @ str limit @ ''/100)''),
          severity = critical\<rparr>)"

definition validateTestQuality :: "(number \<Rightarrow> string) \<Rightarrow> number \<Rightarrow> number \<Rightarrow> QualityGateResult" where
  "validateTestQuality str v limit =
     (let ok = (v \<ge> limit)
      in \<lparr>gateName = ''Test Quality'', passed = ok, score = v, threshold = limit,
          message =
            (if ok
             then check_mark @ '' Test quality ('' @ str v @ ''/100) meets threshold (''
                    @ str limit @ ''/100)''
             else warning_sign @ '' Test quality ('' @ str v @ ''/100) below threshold (''
                    @ str limit @ ''/100)''),
          severity = high\<rparr>)"

definition validateOverallConfidence :: "(number \<Rightarrow> string) \<Rightarrow> number \<Rightarrow> number \<Rightarrow> QualityGateResult" where
  "validateOverallConfidence str v limit =
     (let ok = (v \<ge> limit)
      in \<lparr>gateName = ''Overall Confidence'', passed = ok, score = v, threshold = limit,
          message =
            (if ok
             then check_mark @ '' Release confidence ('' @ str v @ ''/100) meets threshold (''
                    @ str limit @ ''/100)''
             else warning_sign @ '' Release confidence ('' @ str v @ ''/100) below threshold (''
                    @ str limit @ ''/100)''),
          severity = high\<rparr>)"

definition generateSummary :: "(number \<Rightarrow> string) \<Rightarrow> QualityGateResult list \<Rightarrow> bool \<Rightarrow> string" where
  "generateSummary str gs allPassed =
     (let passedCount = length (filter (\<lambda>g. passed g) gs);
          totalCount = length gs
      in if allPassed
         then check_mark @ '' All quality gates passed ('' @ str (of_nat passedCount) @ ''/''
                @ str (of_nat totalCount) @ '')''
         else (let failedCount = (of_nat totalCount :: number) - of_nat passedCount
               in cross_mark @ '' '' @ str failedCount @ '' quality gate(s) failed (''
                    @ str (of_nat passedCount) @ ''/'' @ str (of_nat totalCount) @ '' passed)''))"

definition validate :: "(number \<Rightarrow> string) \<Rightarrow> ReleaseConfidenceScore \<Rightarrow> PRValidationResult" where
  "validate str conf =
     (let gs = [ validateTestPassRate str
                   (ComponentScore.score (testPassRate (components conf))) minTestPassRate,
                 validateRiskCoverage str
                   (ComponentScore.score (riskCoverage (components conf))) minRiskCoverage,
                 validateTestQuality str
                   (ComponentScore.score (testQuality (components conf))) minTestQuality,
                 validateOverallConfidence str
                   (ReleaseConfidenceScore.overallScore conf) minConfidenceScore ];
          criticalGates = filter (\<lambda>g. severity g = critical) gs;
          failedCriticalGates = filter (\<lambda>g. \<not> passed g) criticalGates;
          allPassed = (length failedCriticalGates = 0);
          blocking = map message (filter (\<lambda>g. \<not> passed g \<and> severity g = critical) gs);
          warning_msgs = map message (filter (\<lambda>g. \<not> passed g \<and> severity g \<noteq> critical) gs)
      in \<lparr>overallPassed = allPassed, gates = gs, confidence = conf, blockers = blocking,
          warnings = warning_msgs, summary = generateSummary str gs allPassed\<rparr>)"

section \<open>Dates of the runtime\<close>

text \<open>
  A \<open>Date\<close> is its time value: milliseconds since 1970-01-01T00:00:00Z (invalid dates and
  the clipping of the range are not modelled). The host's time zone is the function
  \<open>LocalTZA\<close> of the language standard: \<open>tza t True\<close> is the offset of local time from
  UTC, in milliseconds, at the instant \<open>t\<close>, and \<open>tza t False\<close> the offset that belongs to
  the local time value \<open>t\<close>.
\<close>

type_synonym LocalTZA = "int \<Rightarrow> bool \<Rightarrow> int"

definition msPerDay :: int where "msPerDay = 86400000"

definition Day :: "int \<Rightarrow> int" where
  "Day t = t div msPerDay"

text \<open>
  \<open>date.setDate(date.getDate() - i)\<close>: with \<open>t = LocalTime(date)\<close> the standard sets the
  date to \<open>UTC(MakeDate(MakeDay(YearFromTime(t), MonthFromTime(t), DateFromTime(t) - i),
  TimeWithinDay(t)))\<close>. \<open>MakeDay(y, m, dt)\<close> is the day number of the first of the month
  plus \<open>dt - 1\<close>, here \<open>Day(t) - i\<close>: the local time moves back by \<open>i\<close> whole days and
  keeps its time of day, and is then converted back with the offset of the new local time.
\<close>

definition setDate_back :: "LocalTZA \<Rightarrow> int \<Rightarrow> nat \<Rightarrow> int" where
  "setDate_back tza date i =
     (let t = date + tza date True;
          newDate = t - int i * msPerDay
      in newDate - tza newDate False)"

text \<open>The proleptic Gregorian date (year, month, day of month) of a day number.\<close>

definition civil :: "int \<Rightarrow> int \<times> int \<times> int" where
  "civil days =
     (let z = days + 719468;
          era = z div 146097;
          doe = z - era * 146097;
          yoe = (doe - doe div 1460 + doe div 36524 - doe div 146096) div 365;
          doy = doe - (365 * yoe + yoe div 4 - yoe div 100);
          mp = (5 * doy + 2) div 153;
          d = doy - (153 * mp + 2) div 5 + 1;
          m = (if mp < 10 then mp + 3 else mp - 9);
          y = yoe + era * 400 + (if m \<le> 2 then 1 else 0)
      in (y, m, d))"

fun decimal :: "nat \<Rightarrow> string" where
  "decimal n =
     (if n < 10 then [''0123456789'' ! n]
      else decimal (n div 10) @ [''0123456789'' ! (n mod 10)])"

definition padStart :: "nat \<Rightarrow> string \<Rightarrow> string" where
  "padStart k s = replicate (k - length s) CHR ''0'' @ s"

text \<open>
  \<open>date.toISOString().split('T')[0]\<close>: the UTC calendar date as \<open>YYYY-MM-DD\<close>; a year
  outside 0..9999 is written with a sign and six digits.
\<close>

definition isoDate :: "int \<Rightarrow> string" where
  "isoDate t =
     (case civil (Day t) of
        (y, m, d) \<Rightarrow>
          (if 0 \<le> y \<and> y \<le> 9999 then padStart 4 (decimal (nat y))
           else (if y < 0 then ''-'' else ''+'') @ padStart 6 (decimal (nat \<bar>y\<bar>)))
          @ ''-'' @ padStart 2 (decimal (nat m)) @ ''-'' @ padStart 2 (decimal (nat d)))"

section \<open>Rejection tracker (src/validation/rejection-tracker.ts, in src/unnamed/part_006)\<close>

datatype RejectionReason =
  incorrect_assertions | missing_edge_cases | poor_selectors | syntax_errors
| incomplete_coverage | poor_maintainability | not_aligned_with_requirements
| security_concerns | performance_issues | other

record ValidationDecision =
  testName :: string
  approved :: bool
  rejectionReason :: "RejectionReason option"
  reviewerComments :: "string option"
  reviewedAt :: int
  reviewedBy :: string

record RejectionRecord =
  testName :: string
  reason :: RejectionReason
  comments :: string
  timestamp :: int
  reviewer :: string

record RejectionPattern =
  reason :: RejectionReason
  count :: nat
  percentage :: number
  examples :: "string list"

record TrendDataPoint =
  date :: string
  rejectionCount :: nat
  approvalCount :: nat
  rejectionRate :: number

record RejectionStats =
  totalRejections :: nat
  rejectionsByReason :: "RejectionReason \<Rightarrow> nat"
  rejectionRate :: number
  commonPatterns :: "RejectionPattern list"
  trendData :: "TrendDataPoint list"


text \<open>
  One pass of the loop of \<open>calculateTrendData\<close>, for the day \<open>i\<close> days back, and the loop
  itself, which runs from \<open>i = days - 1\<close> down to \<open>0\<close> and pushes one point per pass.
\<close>

definition trendPoint :: "LocalTZA \<Rightarrow> int \<Rightarrow> ValidationDecision list \<Rightarrow> nat \<Rightarrow> TrendDataPoint" where
  "trendPoint tza now decisions i =
     (let dateStr = isoDate (setDate_back tza now i);
          dayDecisions = filter (\<lambda>d. isoDate (reviewedAt d) = dateStr) decisions;
          rejections = length (filter (\<lambda>d. \<not> approved d) dayDecisions);
          approvals = length (filter (\<lambda>d. approved d) dayDecisions);
          total = length dayDecisions
      in \<lparr>date = dateStr, rejectionCount = rejections, approvalCount = approvals,
          rejectionRate = (if total > 0 then (of_nat rejections / of_nat total) * 100 else 0)\<rparr>)"

fun trendLoop :: "LocalTZA \<Rightarrow> int \<Rightarrow> ValidationDecision list \<Rightarrow> nat \<Rightarrow> TrendDataPoint list" where
  "trendLoop tza now decisions 0 = []"
| "trendLoop tza now decisions (Suc i) =
     trendPoint tza now decisions i # trendLoop tza now decisions i"

definition calculateTrendData ::
  "LocalTZA \<Rightarrow> int \<Rightarrow> ValidationDecision list \<Rightarrow> RejectionRecord list \<Rightarrow> TrendDataPoint list" where
  "calculateTrendData tza now decisions records = trendLoop tza now decisions 30"



section \<open>Auxiliary definitions for the statements and their examples\<close>

text \<open>
  The runtime's number-to-string conversion on integers: decimal digits, with a sign when
  negative. It stands for the parameter \<open>str\<close> in the examples, which render integers only.
\<close>

definition show_integer :: "number \<Rightarrow> string" where
  "show_integer v = (if v < 0 then ''-'' else []) @ decimal (nat \<bar>\<lfloor>v\<rfloor>\<bar>)"

text \<open>
  A regular expression engine for the examples: it stands for \<open>new RegExp(p, 'i')\<close> on
  the patterns that the examples use. A pattern \<open>w1|...|wn\<close> of words made of ASCII letters,
  digits, blanks and \<open>- _ / :\<close> matches, whatever the case of the letters, the strings that
  contain one of the words. Every other pattern is answered by \<open>None\<close>; the only such
  pattern in the examples is an opening bracket alone, an unterminated group, for which
  the runtime throws a \<open>SyntaxError\<close>.
\<close>

definition RegExp_words :: RegExp where
  "RegExp_words p =
     (if \<exists>c \<in> set p. c \<notin> set (''| -_/:0123456789'' @ ''abcdefghijklmnopqrstuvwxyz''
                                  @ ''ABCDEFGHIJKLMNOPQRSTUVWXYZ'')
      then None
      else Some (regex_test (alt (map lit_i (split_char CHR ''|'' p)))))"

text \<open>
  The scan of \<open>findMatchingConfig\<close> passes an entry when its pattern compiles and does not
  match the feature name, and stops with an entry when its pattern compiles and matches.
\<close>

definition skipped :: "RegExp \<Rightarrow> string \<Rightarrow> FeatureRiskConfig \<Rightarrow> bool" where
  "skipped newRegExp fname feature =
     (case newRegExp (FeatureRiskConfig.pattern feature) of
        None \<Rightarrow> False
      | Some regex \<Rightarrow> \<not> regex fname)"

definition matching :: "RegExp \<Rightarrow> string \<Rightarrow> FeatureRiskConfig \<Rightarrow> bool" where
  "matching newRegExp fname feature =
     (case newRegExp (FeatureRiskConfig.pattern feature) of
        None \<Rightarrow> False
      | Some regex \<Rightarrow> regex fname)"

text \<open>A risk level is populated when some feature of the list has it.\<close>

definition populated :: "FeatureTestMapping list \<Rightarrow> RiskLevel \<Rightarrow> bool" where
  "populated mappings level =
     (\<exists>m \<in> set mappings. RiskClassification.riskLevel (riskClassification m) = level)"

text \<open>Example inputs.\<close>

definition feature_mapping :: "string \<Rightarrow> RiskLevel \<Rightarrow> number \<Rightarrow> bool \<Rightarrow> FeatureTestMapping" where
  "feature_mapping n l v t =
     \<lparr>FeatureTestMapping.featureName = n,
      riskClassification =
        \<lparr>RiskClassification.featureName = n, RiskClassification.riskLevel = l,
         RiskClassification.riskScore = v, riskFactors = [],
         businessImpact = ''medium'', technicalComplexity = ''medium'',
         changeFrequency = ''medium''\<rparr>,
      testFiles = [], isTested = t\<rparr>"

definition input_60_90_90_90 :: ReleaseConfidenceInput where
  "input_60_90_90_90 =
     \<lparr>testResults = \<lparr>totalTests = 10, passedTests = 6, failedTests = 4, skippedTests = 0\<rparr>,
      coverageMetrics = \<lparr>CoverageMetrics.totalFeatures = 10, CoverageMetrics.testedFeatures = 9,
                          coverageByRisk = calculateRiskLevelCoverage [], overallCoverage = 90,
                          riskWeightedCoverage = 90, gaps = []\<rparr>,
      qualityMetrics = [\<lparr>syntaxScore = 90, coverageScore = 90, assertionScore = 90,
                          maintainabilityScore = 90, bestPracticesScore = 90,
                          overallScore = 90, issues = []\<rparr>],
      validationStats = \<lparr>totalValidations = 10, approvedTests = 9, rejectedTests = 1,
                          autoApprovedTests = 0\<rparr>\<rparr>"

definition input_absent :: ReleaseConfidenceInput where
  "input_absent =
     \<lparr>testResults = \<lparr>totalTests = 0, passedTests = 0, failedTests = 0, skippedTests = 0\<rparr>,
      coverageMetrics = analyzeCoverage [],
      qualityMetrics = [],
      validationStats = \<lparr>totalValidations = 0, approvedTests = 0, rejectedTests = 0,
                          autoApprovedTests = 0\<rparr>\<rparr>"

definition confidence_of :: "number \<Rightarrow> number \<Rightarrow> number \<Rightarrow> number \<Rightarrow> number \<Rightarrow> ReleaseConfidenceScore" where
  \<comment> \<open>a confidence score with the given component scores and overall score\<close>
  "confidence_of tp rc tq hv ov =
     \<lparr>overallScore = ov,
      components =
        \<lparr>testPassRate = \<lparr>ComponentScore.score = tp, weight = weights_testPassRate,
                          weightedScore = times64 tp weights_testPassRate, status = getStatus tp\<rparr>,
         riskCoverage = \<lparr>ComponentScore.score = rc, weight = weights_riskCoverage,
                          weightedScore = times64 rc weights_riskCoverage, status = getStatus rc\<rparr>,
         testQuality = \<lparr>ComponentScore.score = tq, weight = weights_testQuality,
                         weightedScore = times64 tq weights_testQuality, status = getStatus tq\<rparr>,
         humanValidationRate = \<lparr>ComponentScore.score = hv, weight = weights_humanValidationRate,
                                 weightedScore = times64 hv weights_humanValidationRate,
                                 status = getStatus hv\<rparr>\<rparr>,
      recommendation = determineRecommendation ov
        \<lparr>testPassRate = \<lparr>ComponentScore.score = tp, weight = weights_testPassRate,
                          weightedScore = times64 tp weights_testPassRate, status = getStatus tp\<rparr>,
         riskCoverage = \<lparr>ComponentScore.score = rc, weight = weights_riskCoverage,
                          weightedScore = times64 rc weights_riskCoverage, status = getStatus rc\<rparr>,
         testQuality = \<lparr>ComponentScore.score = tq, weight = weights_testQuality,
                         weightedScore = times64 tq weights_testQuality, status = getStatus tq\<rparr>,
         humanValidationRate = \<lparr>ComponentScore.score = hv, weight = weights_humanValidationRate,
                                 weightedScore = times64 hv weights_humanValidationRate,
                                 status = getStatus hv\<rparr>\<rparr>,
      details = [], calculatedAt = 0\<rparr>"

definition entry_broken :: FeatureRiskConfig where
  "entry_broken =
     \<lparr>FeatureRiskConfig.name = ''broken'', FeatureRiskConfig.pattern = ''('',
      FeatureRiskConfig.riskLevel = high, FeatureRiskConfig.businessImpact = high,
      FeatureRiskConfig.technicalComplexity = Medium,
      FeatureRiskConfig.changeFrequency = Medium\<rparr>"

definition entry_auth :: FeatureRiskConfig where
  "entry_auth =
     \<lparr>FeatureRiskConfig.name = ''auth'', FeatureRiskConfig.pattern = ''login|auth'',
      FeatureRiskConfig.riskLevel = critical, FeatureRiskConfig.businessImpact = critical,
      FeatureRiskConfig.technicalComplexity = High,
      FeatureRiskConfig.changeFrequency = Medium\<rparr>"

definition config_of :: "FeatureRiskConfig list \<Rightarrow> RiskConfig" where
  "config_of fs = \<lparr>features = fs, defaultRiskLevel = medium\<rparr>"

definition features_all_tested :: "FeatureTestMapping list" where
  "features_all_tested =
     [feature_mapping ''Checkout'' critical 100 True, feature_mapping ''Cart'' high 75 True,
      feature_mapping ''Catalog'' medium 50 True, feature_mapping ''Footer'' low 25 True]"

definition features_none_tested :: "FeatureTestMapping list" where
  "features_none_tested =
     [feature_mapping ''Checkout'' critical 100 False, feature_mapping ''Footer'' low 25 False]"

text \<open>
  A two-line test whose only description, \<open>logs the user in\<close>, has 16 characters, and the
  issue that reports short descriptions.
\<close>

definition short_description_test :: string where
  "short_description_test =
     ''// login'' @ [CHR 0x0A] @ ''it('logs the user in', () => {});''"

definition description_issue :: QualityIssue where
  "description_issue =
     \<lparr>QualityIssue.severity = info, category = ''maintainability'',
      QualityIssue.message = ''Some test descriptions are too short'', line = None\<rparr>"

text \<open>
  A test with a description of 32 characters whose body visits the home page.
\<close>

definition long_description_test :: string where
  "long_description_test =
     ''// home'' @ [CHR 0x0A] @ ''it('shows the home page to a visitor', () => { cy.visit('/'); });''"

text \<open>
  A host in the zone of New York, around the start of daylight saving time in 2026: local
  time is UTC-5 until 2026-03-08T07:00:00Z (02:00 local time) and UTC-4 from then on; a
  local time in the skipped hour is read with the offset before the change. The clock
  reading 1773185400000 is 2026-03-10T23:30:00Z, 19:30 local time.
\<close>

definition new_york :: LocalTZA where
  "new_york t isUTC =
     (if isUTC then (if t < 1772953200000 then - 18000000 else - 14400000)
      else (if t < 1772938800000 then - 18000000 else - 14400000))"





text \<open>
  The \<open>n\<close> features of one level, the first \<open>k\<close> of them tested; and a list with
  five of six critical, two of three high, one of three medium and one of four low
  features tested.
\<close>

definition level_features :: "RiskLevel \<Rightarrow> nat \<Rightarrow> nat \<Rightarrow> FeatureTestMapping list" where
  "level_features l k n = map (\<lambda>i. feature_mapping ''feature'' l 50 (i < k)) [0..<n]"

definition features_partly_tested :: "FeatureTestMapping list" where
  "features_partly_tested =
     level_features critical 5 6 @ level_features high 2 3 @ level_features medium 1 3
     @ level_features low 1 4"

section \<open>Properties\<close>

subsection \<open>Rounding\<close>

lemma Math_round_of_int: "Math_round (of_int n) = of_int n"
proof -
  have "\<lfloor>(of_int n :: rat) + 1 / 2\<rfloor> = n"
    by (rule floor_unique) simp_all
  then show ?thesis by (simp add: Math_round_def)
qed

lemma Math_round_numeral: "Math_round (numeral k) = numeral k"
  using Math_round_of_int [of "numeral k"] by simp

lemma Math_round_0: "Math_round 0 = 0"
  using Math_round_of_int [of 0] by simp

text \<open>
  Values of the binary64 operations that the properties below use: zero is absorbing, the
  multiples of ten up to 100 are representable, and 100 times the double nearest to a
  weight is the weight in percent.
\<close>

lemma double_0: "double 0 = 0"
  by (simp add: double_def)

lemma times64_0: "times64 0 y = 0" "times64 x 0 = 0"
  by (simp_all add: times64_def double_0)

lemma plus64_0_0: "plus64 0 0 = 0"
  by (simp add: plus64_def double_0)

lemma double_tens:
  "double 1 = 1" "double 10 = 10" "double 20 = 20" "double 30 = 30" "double 40 = 40"
  "double 50 = 50" "double 60 = 60" "double 70 = 70" "double 80 = 80" "double 90 = 90"
  "double 100 = 100"
  by code_simp+

lemma weighted_100:
  "times64 100 (double (4 / 10)) = 40" "times64 100 (double (3 / 10)) = 30"
  "times64 100 (double (2 / 10)) = 20" "times64 100 (double (1 / 10)) = 10"
  by code_simp+

lemma weighted_100_reduced:
  "times64 100 (double (2 / 5)) = 40"
  "times64 100 (double (1 / 5)) = 20"
  by code_simp+

subsection \<open>Release confidence\<close>

text \<open>
  Claim C1. For every input, the recommendation of \<open>calculateConfidence\<close> is \<open>blocked\<close>
  whenever the score of the test pass rate component is below 80 or the score of the risk
  coverage component is below 70, whatever the overall score is; only otherwise it is read
  off the overall score: ready to release from 85, proceed with caution from 70, not
  recommended from 60, blocked below. In particular the component scores 60, 90, 90, 90
  give \<open>blocked\<close> for every overall score.
\<close>

theorem recommendation_blocking_rule:
  "(let r = calculateConfidence str now input;
        p = ComponentScore.score (testPassRate (components r));
        c = ComponentScore.score (riskCoverage (components r));
        v = ReleaseConfidenceScore.overallScore r
    in ReleaseConfidenceScore.recommendation r =
         (if p < 80 \<or> c < 70 then blocked
          else if v \<ge> 85 then ready_to_release
          else if v \<ge> 70 then proceed_with_caution
          else if v \<ge> 60 then not_recommended
          else blocked))
   \<and> (ComponentScore.score (testPassRate comps) = 60
        \<and> ComponentScore.score (riskCoverage comps) = 90
        \<and> ComponentScore.score (testQuality comps) = 90
        \<and> ComponentScore.score (humanValidationRate comps) = 90
        \<longrightarrow> determineRecommendation v comps = blocked)"
  by (simp add: calculateConfidence_def determineRecommendation_def Let_def)

lemma components_values_60_90_90_90:
  "calculateTestPassRate (testResults input_60_90_90_90)
     = \<lparr>ComponentScore.score = 60, weight = weights_testPassRate, weightedScore = 24,
        status = fair\<rparr>"
  "calculateRiskCoverage (coverageMetrics input_60_90_90_90)
     = \<lparr>ComponentScore.score = 90, weight = weights_riskCoverage, weightedScore = 27,
        status = excellent\<rparr>"
  "calculateTestQuality (qualityMetrics input_60_90_90_90)
     = \<lparr>ComponentScore.score = 90, weight = weights_testQuality, weightedScore = 18,
        status = excellent\<rparr>"
  "calculateHumanValidationRate (validationStats input_60_90_90_90)
     = \<lparr>ComponentScore.score = 90, weight = weights_humanValidationRate, weightedScore = 9,
        status = excellent\<rparr>"
  "plus64 (plus64 (plus64 24 27) 18) 9 = 78"
  by code_simp+

lemma components_60_90_90_90:
  "map (\<lambda>f. ComponentScore.score (f (components (calculateConfidence str now input_60_90_90_90))))
     [testPassRate, riskCoverage, testQuality, humanValidationRate] = [60, 90, 90, 90]
   \<and> ReleaseConfidenceScore.overallScore (calculateConfidence str now input_60_90_90_90) = 78"
  by (simp add: calculateConfidence_def components_values_60_90_90_90 Math_round_numeral Let_def)

text \<open>
  Six tests of ten passed, a coverage of 90, one quality vector of 90 and nine approvals
  of ten give the component scores 60, 90, 90, 90 and the overall score 78, which alone
  would be "proceed with caution": the recommendation is \<open>blocked\<close>.
\<close>

theorem recommendation_blocking_rule_witness:
  "ComponentScore.score
     (testPassRate (components (calculateConfidence show_integer 0 input_60_90_90_90))) = 60
   \<and> ComponentScore.score
     (riskCoverage (components (calculateConfidence show_integer 0 input_60_90_90_90))) = 90
   \<and> ReleaseConfidenceScore.overallScore (calculateConfidence show_integer 0 input_60_90_90_90) = 78
   \<and> ReleaseConfidenceScore.recommendation
       (calculateConfidence show_integer 0 input_60_90_90_90) = blocked"
  using recommendation_blocking_rule [of show_integer 0 input_60_90_90_90]
    components_60_90_90_90 [of show_integer 0]
  by (simp add: Let_def)

text \<open>
  Claim C8. \<open>calculateConfidence\<close> is a total function of its input (the model has no
  exception to return), and degrades as specified: with an empty list of quality vectors
  the test quality component has score 0, weighted score 0 and status \<open>poor\<close>; with zero
  validations the human validation component has score 100 and status \<open>excellent\<close>.
\<close>

theorem soft_absence_defaults:
  "(qualityMetrics input = [] \<longrightarrow>
      ComponentScore.score (testQuality (components (calculateConfidence str now input))) = 0
      \<and> weightedScore (testQuality (components (calculateConfidence str now input))) = 0
      \<and> status (testQuality (components (calculateConfidence str now input))) = poor)
   \<and> (totalValidations (validationStats input) = 0 \<longrightarrow>
      ComponentScore.score
        (humanValidationRate (components (calculateConfidence str now input))) = 100
      \<and> status (humanValidationRate (components (calculateConfidence str now input))) = excellent)"
  by (simp add: calculateConfidence_def calculateTestQuality_def calculateHumanValidationRate_def
      Let_def)

theorem soft_absence_defaults_witness:
  "qualityMetrics input_absent = [] \<and> totalValidations (validationStats input_absent) = 0
   \<and> ComponentScore.score
       (testQuality (components (calculateConfidence show_integer 0 input_absent))) = 0
   \<and> status (testQuality (components (calculateConfidence show_integer 0 input_absent))) = poor
   \<and> ComponentScore.score
       (humanValidationRate (components (calculateConfidence show_integer 0 input_absent))) = 100
   \<and> status (humanValidationRate (components (calculateConfidence show_integer 0 input_absent)))
       = excellent"
  using soft_absence_defaults [of input_absent show_integer 0]
  by (simp add: input_absent_def)

subsection \<open>Risk coverage\<close>

lemma level_coverage_fields:
  "RiskCoverage.totalFeatures (calculateRiskLevelCoverage ms l)
     = length (filter (\<lambda>m. RiskClassification.riskLevel (riskClassification m) = l) ms)"
  "RiskCoverage.testedFeatures (calculateRiskLevelCoverage ms l)
     = length (filter (\<lambda>m. RiskClassification.riskLevel (riskClassification m) = l \<and> isTested m) ms)"
  "coveragePercentage (calculateRiskLevelCoverage ms l)
     = (if length (filter (\<lambda>m. RiskClassification.riskLevel (riskClassification m) = l) ms) > 0
        then times64
               (divide64
                  (of_nat (length (filter (\<lambda>m. RiskClassification.riskLevel (riskClassification m) = l
                                              \<and> isTested m) ms)))
                  (of_nat (length (filter (\<lambda>m. RiskClassification.riskLevel (riskClassification m) = l)
                                     ms))))
               100
        else 0)"
  by (simp_all add: calculateRiskLevelCoverage_def Let_def)

lemma pct_unpopulated:
  "\<not> populated ms l \<Longrightarrow> coveragePercentage (calculateRiskLevelCoverage ms l) = 0"
  by (auto simp: populated_def level_coverage_fields filter_empty_conv)

lemma pct_untested:
  assumes "\<forall>m \<in> set ms. \<not> isTested m"
  shows "coveragePercentage (calculateRiskLevelCoverage ms l) = 0"
proof -
  have "filter (\<lambda>m. RiskClassification.riskLevel (riskClassification m) = l \<and> isTested m) ms = []"
    using assms by (auto simp: filter_empty_conv)
  then show ?thesis by (simp add: level_coverage_fields divide64_def double_0 times64_0)
qed

lemma pct_all_tested:
  assumes "\<forall>m \<in> set ms. isTested m"
  shows "coveragePercentage (calculateRiskLevelCoverage ms l) = (if populated ms l then 100 else 0)"
proof (cases "populated ms l")
  case False
  then show ?thesis by (simp add: pct_unpopulated)
next
  case True
  let ?at = "filter (\<lambda>m. RiskClassification.riskLevel (riskClassification m) = l) ms"
  have ne: "?at \<noteq> []" using True by (auto simp: populated_def filter_empty_conv)
  have "filter (\<lambda>m. RiskClassification.riskLevel (riskClassification m) = l \<and> isTested m) ms = ?at"
    using assms by (intro filter_cong) auto
  then show ?thesis
    using ne True by (simp add: level_coverage_fields divide64_def times64_def double_tens)
qed

lemma analyzeCoverage_fields:
  "coverageByRisk (analyzeCoverage ms) = calculateRiskLevelCoverage ms"
  "riskWeightedCoverage (analyzeCoverage ms) =
     calculateRiskWeightedCoverage (calculateRiskLevelCoverage ms)"
  by (simp_all add: analyzeCoverage_def Let_def)

text \<open>
  Claim C3, as amended. For every list of feature mappings, \<open>riskWeightedCoverage\<close> is
  \<open>Math.round\<close> of the sum \<open>critical% * 0.4 + high% * 0.3 + medium% * 0.2 + low% * 0.1\<close>
  evaluated from left to right in binary64 arithmetic: every product and every sum is
  rounded to the nearest double. Each level reports the number of its features, the number
  of its tested features, and as percentage the double \<open>(tested / total) * 100\<close>, again
  with the quotient and the product rounded, or 0 when no feature has the level. If no
  feature is tested, every percentage and the weighted coverage are 0. If every feature is
  tested, the percentage of every populated level is 100 and the weighted coverage is the
  sum of the weights (40, 30, 20, 10) of the populated levels: it is 100 when all four
  levels are populated, and less otherwise.
\<close>

theorem risk_weighted_coverage:
  "(let cm = analyzeCoverage ms;
        pct = (\<lambda>l. coveragePercentage (coverageByRisk cm l));
        n_total = (\<lambda>l. length (filter (\<lambda>m. RiskClassification.riskLevel (riskClassification m) = l) ms));
        n_tested = (\<lambda>l. length (filter (\<lambda>m. RiskClassification.riskLevel (riskClassification m) = l
                                          \<and> isTested m) ms))
    in riskWeightedCoverage cm =
         Math_round
           (plus64
              (plus64
                 (plus64 (times64 (pct critical) (double (4 / 10)))
                         (times64 (pct high) (double (3 / 10))))
                 (times64 (pct medium) (double (2 / 10))))
              (times64 (pct low) (double (1 / 10))))
       \<and> (\<forall>l. RiskCoverage.totalFeatures (coverageByRisk cm l) = n_total l
              \<and> RiskCoverage.testedFeatures (coverageByRisk cm l) = n_tested l
              \<and> pct l = (if n_total l > 0
                         then times64 (divide64 (of_nat (n_tested l)) (of_nat (n_total l))) 100
                         else 0))
       \<and> (\<forall>l. \<not> populated ms l \<longrightarrow> pct l = 0)
       \<and> ((\<forall>m \<in> set ms. \<not> isTested m) \<longrightarrow> (\<forall>l. pct l = 0) \<and> riskWeightedCoverage cm = 0)
       \<and> ((\<forall>m \<in> set ms. isTested m) \<longrightarrow>
            (\<forall>l. pct l = (if populated ms l then 100 else 0))
            \<and> riskWeightedCoverage cm =
                (if populated ms critical then 40 else 0) + (if populated ms high then 30 else 0)
                + (if populated ms medium then 20 else 0) + (if populated ms low then 10 else 0))
       \<and> ((\<forall>m \<in> set ms. isTested m) \<and> (\<forall>l. populated ms l) \<longrightarrow> riskWeightedCoverage cm = 100))"
proof -
  let ?cm = "analyzeCoverage ms"
  let ?pct = "\<lambda>l. coveragePercentage (coverageByRisk ?cm l)"
  have pct: "?pct l = coveragePercentage (calculateRiskLevelCoverage ms l)" for l
    by (simp only: analyzeCoverage_fields)
  have formula: "riskWeightedCoverage ?cm =
      Math_round
        (plus64
           (plus64
              (plus64 (times64 (?pct critical) (double (4 / 10)))
                      (times64 (?pct high) (double (3 / 10))))
              (times64 (?pct medium) (double (2 / 10))))
           (times64 (?pct low) (double (1 / 10))))"
    by (simp only: analyzeCoverage_fields calculateRiskWeightedCoverage_def Let_def)
  have fields: "\<forall>l. RiskCoverage.totalFeatures (coverageByRisk ?cm l)
          = length (filter (\<lambda>m. RiskClassification.riskLevel (riskClassification m) = l) ms)
        \<and> RiskCoverage.testedFeatures (coverageByRisk ?cm l)
          = length (filter (\<lambda>m. RiskClassification.riskLevel (riskClassification m) = l
                                   \<and> isTested m) ms)
        \<and> ?pct l =
            (if length (filter (\<lambda>m. RiskClassification.riskLevel (riskClassification m) = l) ms) > 0
             then times64
                    (divide64
                       (of_nat (length (filter (\<lambda>m. RiskClassification.riskLevel
                                                      (riskClassification m) = l \<and> isTested m) ms)))
                       (of_nat (length (filter (\<lambda>m. RiskClassification.riskLevel
                                                      (riskClassification m) = l) ms))))
                    100
             else 0)"
    by (simp only: analyzeCoverage_fields level_coverage_fields) simp
  have unpopulated: "\<forall>l. \<not> populated ms l \<longrightarrow> ?pct l = 0"
    by (simp add: pct pct_unpopulated)
  have untested: "(\<forall>m \<in> set ms. \<not> isTested m) \<longrightarrow>
      (\<forall>l. ?pct l = 0) \<and> riskWeightedCoverage ?cm = 0"
  proof
    assume a: "\<forall>m \<in> set ms. \<not> isTested m"
    have z: "?pct l = 0" for l using a by (simp add: pct pct_untested)
    have "riskWeightedCoverage ?cm = 0"
      by (simp only: formula z times64_0 plus64_0_0 Math_round_0)
    with z show "(\<forall>l. ?pct l = 0) \<and> riskWeightedCoverage ?cm = 0" by blast
  qed
  have tested: "(\<forall>m \<in> set ms. isTested m) \<longrightarrow>
      (\<forall>l. ?pct l = (if populated ms l then 100 else 0))
      \<and> riskWeightedCoverage ?cm =
          (if populated ms critical then 40 else 0) + (if populated ms high then 30 else 0)
          + (if populated ms medium then 20 else 0) + (if populated ms low then 10 else 0)"
  proof
    assume a: "\<forall>m \<in> set ms. isTested m"
    have h: "?pct l = (if populated ms l then 100 else 0)" for l
      using a by (simp add: pct pct_all_tested)
    have "riskWeightedCoverage ?cm =
          (if populated ms critical then 40 else 0) + (if populated ms high then 30 else 0)
          + (if populated ms medium then 20 else 0) + (if populated ms low then 10 else 0)"
      unfolding formula h
      by (simp add: times64_0 weighted_100 weighted_100_reduced plus64_def double_0 double_tens
          Math_round_0 Math_round_numeral)
    with h show "(\<forall>l. ?pct l = (if populated ms l then 100 else 0))
      \<and> riskWeightedCoverage ?cm =
          (if populated ms critical then 40 else 0) + (if populated ms high then 30 else 0)
          + (if populated ms medium then 20 else 0) + (if populated ms low then 10 else 0)"
      by blast
  qed
  have full: "(\<forall>m \<in> set ms. isTested m) \<and> (\<forall>l. populated ms l) \<longrightarrow>
      riskWeightedCoverage ?cm = 100"
    using tested by simp
  show ?thesis
    unfolding Let_def
    by (intro conjI) (rule formula fields unpopulated untested tested full)+
qed

text \<open>
  As the claim was stated it fails twice. "If every feature is tested, the weighted
  coverage is 100": one tested feature of critical risk gives 40. "The weighted coverage
  is the rounded weighted sum": with five of six critical, two of three high, one of three
  medium and one of four low features tested the function returns 62, where the weighted
  sum computed exactly rounds to 63, both on the percentages that the function reports and
  on the exact quotients (there it is 62.5).
\<close>

theorem risk_weighted_coverage_counterexample:
  "(let cm = analyzeCoverage [feature_mapping ''Checkout'' critical 100 True]
    in list_all isTested [feature_mapping ''Checkout'' critical 100 True]
       \<and> riskWeightedCoverage cm = 40)
   \<and> (let cm = analyzeCoverage features_partly_tested;
           pct = (\<lambda>l. coveragePercentage (coverageByRisk cm l))
       in riskWeightedCoverage cm = 62
          \<and> Math_round (pct critical * (4 / 10) + pct high * (3 / 10) + pct medium * (2 / 10)
                         + pct low * (1 / 10)) = 63
          \<and> Math_round ((5 / 6 * 100) * (4 / 10) + (2 / 3 * 100) * (3 / 10)
                         + (1 / 3 * 100) * (2 / 10) + (1 / 4 * 100) * (1 / 10)) = 63)"
  by code_simp

text \<open>
  With one of three features of medium risk tested, the reported percentage is the double
  nearest to the product of 100 and the double nearest to a third, which is below 100 / 3.
\<close>

lemma partly_tested_medium:
  "length (filter (\<lambda>m. RiskClassification.riskLevel (riskClassification m) = medium)
             features_partly_tested) = 3"
  "length (filter (\<lambda>m. RiskClassification.riskLevel (riskClassification m) = medium \<and> isTested m)
             features_partly_tested) = 1"
  "times64 (divide64 1 3) 100 = 2345624805922133 / 70368744177664"
  by code_simp+

theorem risk_weighted_coverage_witness:
  "list_all isTested features_all_tested
   \<and> list_all (populated features_all_tested) [critical, high, medium, low]
   \<and> riskWeightedCoverage (analyzeCoverage features_all_tested) = 100
   \<and> list_all (\<lambda>m. \<not> isTested m) features_none_tested
   \<and> riskWeightedCoverage (analyzeCoverage features_none_tested) = 0
   \<and> RiskCoverage.totalFeatures (coverageByRisk (analyzeCoverage features_partly_tested) medium) = 3
   \<and> RiskCoverage.testedFeatures (coverageByRisk (analyzeCoverage features_partly_tested) medium) = 1
   \<and> coveragePercentage (coverageByRisk (analyzeCoverage features_partly_tested) medium)
       = 2345624805922133 / 70368744177664"
proof -
  have tested: "\<forall>m \<in> set features_all_tested. isTested m"
    by (simp add: features_all_tested_def feature_mapping_def)
  have pop: "populated features_all_tested l" for l
    by (cases l) (simp_all add: populated_def features_all_tested_def feature_mapping_def)
  have untested: "\<forall>m \<in> set features_none_tested. \<not> isTested m"
    by (simp add: features_none_tested_def feature_mapping_def)
  have r100: "riskWeightedCoverage (analyzeCoverage features_all_tested) = 100"
    using risk_weighted_coverage [of features_all_tested] tested pop
    unfolding Let_def by blast
  have r0: "riskWeightedCoverage (analyzeCoverage features_none_tested) = 0"
    using risk_weighted_coverage [of features_none_tested] untested
    unfolding Let_def by blast
  have "RiskCoverage.totalFeatures (coverageByRisk (analyzeCoverage features_partly_tested) medium)
          = length (filter (\<lambda>m. RiskClassification.riskLevel (riskClassification m) = medium)
                      features_partly_tested)
        \<and> RiskCoverage.testedFeatures (coverageByRisk (analyzeCoverage features_partly_tested) medium)
          = length (filter (\<lambda>m. RiskClassification.riskLevel (riskClassification m) = medium
                                   \<and> isTested m) features_partly_tested)
        \<and> coveragePercentage (coverageByRisk (analyzeCoverage features_partly_tested) medium)
          = (if length (filter (\<lambda>m. RiskClassification.riskLevel (riskClassification m) = medium)
                          features_partly_tested) > 0
             then times64
                    (divide64
                       (of_nat (length (filter (\<lambda>m. RiskClassification.riskLevel
                                                      (riskClassification m) = medium \<and> isTested m)
                                          features_partly_tested)))
                       (of_nat (length (filter (\<lambda>m. RiskClassification.riskLevel
                                                      (riskClassification m) = medium)
                                          features_partly_tested))))
                    100
             else 0)"
    using risk_weighted_coverage [of features_partly_tested]
    unfolding Let_def by blast
  then have partly:
    "RiskCoverage.totalFeatures (coverageByRisk (analyzeCoverage features_partly_tested) medium) = 3
     \<and> RiskCoverage.testedFeatures (coverageByRisk (analyzeCoverage features_partly_tested) medium) = 1
     \<and> coveragePercentage (coverageByRisk (analyzeCoverage features_partly_tested) medium)
         = 2345624805922133 / 70368744177664"
    by (simp add: partly_tested_medium)
  have "list_all isTested features_all_tested"
    using tested by (simp add: list_all_iff)
  moreover have "list_all (populated features_all_tested) [critical, high, medium, low]"
    using pop by simp
  moreover have "list_all (\<lambda>m. \<not> isTested m) features_none_tested"
    using untested by (simp add: list_all_iff)
  ultimately show ?thesis using r100 r0 partly by blast
qed

subsection \<open>Pull request gate\<close>

lemma signs_differ: "warning_sign @ s \<noteq> cross_mark @ t"
  by (simp add: warning_sign_def cross_mark_def)

text \<open>
  Claim C2. For every confidence score, \<open>validate\<close> runs exactly four gates: Test Pass
  Rate (threshold 80, critical), Risk Coverage (80, critical), Test Quality (70, high) and
  Overall Confidence (75, high), each passed when its score reaches its threshold.
  \<open>overallPassed\<close> holds exactly when no critical gate failed, that is when the first two
  scores reach 80. The message of a failed gate of severity high goes to the warnings and
  never to the blockers; the message of a failed critical gate goes to the blockers. In
  particular a test quality of 65 with both critical gates passed leaves \<open>overallPassed\<close>
  true, with the failure among the warnings, and a test pass rate of 70 makes
  \<open>overallPassed\<close> false, with its message among the blockers.
\<close>

theorem gate_outcome:
  "(let r = validate str conf;
        tp = ComponentScore.score (testPassRate (components conf));
        rc = ComponentScore.score (riskCoverage (components conf));
        tq = ComponentScore.score (testQuality (components conf));
        ov = ReleaseConfidenceScore.overallScore conf
    in map gateName (gates r)
         = [''Test Pass Rate'', ''Risk Coverage'', ''Test Quality'', ''Overall Confidence'']
       \<and> map score (gates r) = [tp, rc, tq, ov]
       \<and> map threshold (gates r) = [80, 80, 70, 75]
       \<and> map severity (gates r) = [critical, critical, high, high]
       \<and> map passed (gates r) = [tp \<ge> 80, rc \<ge> 80, tq \<ge> 70, ov \<ge> 75]
       \<and> (overallPassed r \<longleftrightarrow> (\<forall>g \<in> set (gates r). severity g = critical \<longrightarrow> passed g))
       \<and> (overallPassed r \<longleftrightarrow> tp \<ge> 80 \<and> rc \<ge> 80)
       \<and> (\<forall>g \<in> set (gates r). severity g = high \<and> \<not> passed g \<longrightarrow>
             message g \<in> set (warnings r) \<and> message g \<notin> set (blockers r))
       \<and> (\<forall>g \<in> set (gates r). severity g = critical \<and> \<not> passed g \<longrightarrow>
             message g \<in> set (blockers r))
       \<and> (tq = 65 \<and> tp \<ge> 80 \<and> rc \<ge> 80 \<longrightarrow>
             overallPassed r
             \<and> warning_sign @ '' Test quality ('' @ str 65 @ ''/100) below threshold (''
                 @ str 70 @ ''/100)'' \<in> set (warnings r)
             \<and> blockers r = [])
       \<and> (tp = 70 \<longrightarrow>
             \<not> overallPassed r
             \<and> cross_mark @ '' Test pass rate ('' @ str 70 @ ''%) below threshold (''
                 @ str 80 @ ''%)'' \<in> set (blockers r)))"
  unfolding Let_def validate_def validateTestPassRate_def validateRiskCoverage_def
    validateTestQuality_def validateOverallConfidence_def minTestPassRate_def
    minRiskCoverage_def minTestQuality_def minConfidenceScore_def
  by (simp add: signs_differ)

lemma confidence_of_scores:
  "ComponentScore.score (testPassRate (components (confidence_of tp rc tq hv ov))) = tp"
  "ComponentScore.score (riskCoverage (components (confidence_of tp rc tq hv ov))) = rc"
  "ComponentScore.score (testQuality (components (confidence_of tp rc tq hv ov))) = tq"
  "ReleaseConfidenceScore.overallScore (confidence_of tp rc tq hv ov) = ov"
  by (simp_all add: confidence_of_def)

theorem gate_outcome_witness:
  "overallPassed (validate show_integer (confidence_of 90 85 65 90 85))
   \<and> warning_sign @ '' Test quality ('' @ show_integer 65 @ ''/100) below threshold (''
         @ show_integer 70 @ ''/100)''
       \<in> set (warnings (validate show_integer (confidence_of 90 85 65 90 85)))
   \<and> blockers (validate show_integer (confidence_of 90 85 65 90 85)) = []
   \<and> \<not> overallPassed (validate show_integer (confidence_of 70 85 90 90 81))
   \<and> cross_mark @ '' Test pass rate ('' @ show_integer 70 @ ''%) below threshold (''
         @ show_integer 80 @ ''%)''
       \<in> set (blockers (validate show_integer (confidence_of 70 85 90 90 81)))"
proof -
  have quality_65:
    "(65::number) = 65 \<and> (80::number) \<le> 90 \<and> (80::number) \<le> 85 \<longrightarrow>
       overallPassed (validate show_integer (confidence_of 90 85 65 90 85))
       \<and> warning_sign @ '' Test quality ('' @ show_integer 65 @ ''/100) below threshold (''
             @ show_integer 70 @ ''/100)''
           \<in> set (warnings (validate show_integer (confidence_of 90 85 65 90 85)))
       \<and> blockers (validate show_integer (confidence_of 90 85 65 90 85)) = []"
    using gate_outcome [of show_integer "confidence_of 90 85 65 90 85"]
    unfolding Let_def confidence_of_scores by blast
  have pass_rate_70:
    "(70::number) = 70 \<longrightarrow>
       \<not> overallPassed (validate show_integer (confidence_of 70 85 90 90 81))
       \<and> cross_mark @ '' Test pass rate ('' @ show_integer 70 @ ''%) below threshold (''
             @ show_integer 80 @ ''%)''
           \<in> set (blockers (validate show_integer (confidence_of 70 85 90 90 81)))"
    using gate_outcome [of show_integer "confidence_of 70 85 90 90 81"]
    unfolding Let_def confidence_of_scores by blast
  from quality_65 pass_rate_70 show ?thesis by simp
qed

subsection \<open>Risk classification\<close>

lemma find_feature_skip:
  "list_all (skipped re n) pre \<Longrightarrow> find_feature re (pre @ fs) n = find_feature re fs n"
  by (induction pre) (auto simp: skipped_def split: option.splits)

lemma find_feature_throws_iff:
  "find_feature re fs n = Inl SyntaxError \<longleftrightarrow>
     (\<exists>pre bad rest. fs = pre @ bad # rest \<and> list_all (skipped re n) pre
        \<and> re (FeatureRiskConfig.pattern bad) = None)"
proof (induction fs)
  case Nil
  then show ?case by simp
next
  case (Cons f fs)
  show ?case
  proof (cases "re (FeatureRiskConfig.pattern f)")
    case None
    have "f # fs = [] @ f # fs \<and> list_all (skipped re n) [] \<and> re (FeatureRiskConfig.pattern f) = None"
      using None by simp
    then have "\<exists>pre bad rest. f # fs = pre @ bad # rest \<and> list_all (skipped re n) pre
        \<and> re (FeatureRiskConfig.pattern bad) = None" by blast
    then show ?thesis using None by simp
  next
    case (Some r)
    show ?thesis
    proof (cases "r n")
      case True
      have "\<not> (\<exists>pre bad rest. f # fs = pre @ bad # rest \<and> list_all (skipped re n) pre
        \<and> re (FeatureRiskConfig.pattern bad) = None)"
      proof
        assume "\<exists>pre bad rest. f # fs = pre @ bad # rest \<and> list_all (skipped re n) pre
          \<and> re (FeatureRiskConfig.pattern bad) = None"
        then obtain pre bad rest where d: "f # fs = pre @ bad # rest"
          and s: "list_all (skipped re n) pre" and b: "re (FeatureRiskConfig.pattern bad) = None"
          by blast
        show False
        proof (cases pre)
          case Nil
          then show False using d b Some by simp
        next
          case (Cons a pre')
          then have "a = f" using d by simp
          then show False using s Cons Some True by (simp add: skipped_def)
        qed
      qed
      then show ?thesis using Some True by simp
    next
      case False
      have sk: "skipped re n f" using Some False by (simp add: skipped_def)
      have "(\<exists>pre bad rest. f # fs = pre @ bad # rest \<and> list_all (skipped re n) pre
               \<and> re (FeatureRiskConfig.pattern bad) = None)
            \<longleftrightarrow> (\<exists>pre bad rest. fs = pre @ bad # rest \<and> list_all (skipped re n) pre
               \<and> re (FeatureRiskConfig.pattern bad) = None)" (is "?L \<longleftrightarrow> ?R")
      proof
        assume ?L
        then obtain pre bad rest where d: "f # fs = pre @ bad # rest"
          and s: "list_all (skipped re n) pre" and b: "re (FeatureRiskConfig.pattern bad) = None"
          by blast
        show ?R
        proof (cases pre)
          case Nil
          then show ?R using d b Some by simp
        next
          case (Cons a pre')
          then have "fs = pre' @ bad # rest" "list_all (skipped re n) pre'"
            using d s by simp_all
          then show ?R using b by blast
        qed
      next
        assume ?R
        then obtain pre bad rest where d: "fs = pre @ bad # rest"
          and s: "list_all (skipped re n) pre" and b: "re (FeatureRiskConfig.pattern bad) = None"
          by blast
        have "f # fs = (f # pre) @ bad # rest" "list_all (skipped re n) (f # pre)"
          using d s sk by simp_all
        then show ?L using b by blast
      qed
      then show ?thesis using Some False Cons.IH by simp
    qed
  qed
qed

lemma find_feature_hit:
  "list_all (skipped re n) pre \<Longrightarrow> matching re n hit \<Longrightarrow>
   find_feature re (pre @ hit # rest) n = Inr (Some hit)"
  by (simp add: find_feature_skip) (auto simp: matching_def split: option.splits)

lemma find_feature_none:
  "list_all (skipped re n) fs \<Longrightarrow> find_feature re fs n = Inr None"
  using find_feature_skip [of re n fs "[]"] by simp

lemma classifyFeature_Inl_iff:
  "classifyFeature re config n ctx = Inl e \<longleftrightarrow> find_feature re (features config) n = Inl e"
  by (simp add: classifyFeature_def findMatchingConfig_def Let_def split: sum.splits)

lemma classifyFeature_Inr:
  "find_feature re (features config) n = Inr m \<Longrightarrow>
   \<exists>c. classifyFeature re config n ctx = Inr c
       \<and> RiskClassification.riskLevel c =
           (case orElse (map_option FeatureRiskConfig.riskLevel m)
                   (Option.bind ctx PartialFeatureRiskConfig.riskLevel) of
              Some v \<Rightarrow> v
            | None \<Rightarrow> determineRiskLevel (RiskClassification.riskScore c))"
  by (simp add: classifyFeature_def findMatchingConfig_def Let_def split: option.splits)

text \<open>
  Claim C4, as amended. \<open>classifyFeature\<close> does not skip a malformed entry. The scan of the
  configuration visits the entries in order and ends at the first entry that matches the
  feature name; when it reaches an entry whose pattern is not a valid regular expression,
  the \<open>SyntaxError\<close> leaves \<open>classifyFeature\<close>, and no classification is returned. A
  classification is returned exactly when no such entry is reached: in particular when an
  entry that matches comes before every malformed one (the result then has that entry's
  risk level), and when every pattern is valid.
\<close>

theorem malformed_pattern_propagates:
  "(classifyFeature newRegExp config fname ctx = Inl SyntaxError \<longleftrightarrow>
      (\<exists>before bad rest. features config = before @ bad # rest
         \<and> list_all (skipped newRegExp fname) before
         \<and> newRegExp (FeatureRiskConfig.pattern bad) = None))
   \<and> ((\<exists>c. classifyFeature newRegExp config fname ctx = Inr c) \<longleftrightarrow>
      \<not> (\<exists>before bad rest. features config = before @ bad # rest
         \<and> list_all (skipped newRegExp fname) before
         \<and> newRegExp (FeatureRiskConfig.pattern bad) = None))
   \<and> (features config = before @ hit # rest \<and> list_all (skipped newRegExp fname) before
        \<and> matching newRegExp fname hit \<longrightarrow>
      (\<exists>c. classifyFeature newRegExp config fname ctx = Inr c
           \<and> RiskClassification.riskLevel c = FeatureRiskConfig.riskLevel hit))
   \<and> (list_all (\<lambda>f. newRegExp (FeatureRiskConfig.pattern f) \<noteq> None) (features config) \<longrightarrow>
      (\<exists>c. classifyFeature newRegExp config fname ctx = Inr c))"
proof -
  let ?reached = "\<exists>before bad rest. features config = before @ bad # rest
         \<and> list_all (skipped newRegExp fname) before
         \<and> newRegExp (FeatureRiskConfig.pattern bad) = None"
  have a: "classifyFeature newRegExp config fname ctx = Inl SyntaxError \<longleftrightarrow> ?reached"
    by (simp only: classifyFeature_Inl_iff find_feature_throws_iff)
  have b: "(\<exists>c. classifyFeature newRegExp config fname ctx = Inr c) \<longleftrightarrow> \<not> ?reached"
  proof -
    have "(\<exists>c. classifyFeature newRegExp config fname ctx = Inr c)
          \<longleftrightarrow> classifyFeature newRegExp config fname ctx \<noteq> Inl SyntaxError"
      by (cases "classifyFeature newRegExp config fname ctx") (auto intro: exception.exhaust)
    then show ?thesis using a by simp
  qed
  have c: "\<exists>c. classifyFeature newRegExp config fname ctx = Inr c
           \<and> RiskClassification.riskLevel c = FeatureRiskConfig.riskLevel hit"
    if "features config = before @ hit # rest" "list_all (skipped newRegExp fname) before"
       "matching newRegExp fname hit"
    using classifyFeature_Inr [of newRegExp config fname "Some hit" ctx]
      find_feature_hit [OF that(2) that(3), of rest] that(1) by simp
  have d: "\<exists>c. classifyFeature newRegExp config fname ctx = Inr c"
    if v: "list_all (\<lambda>f. newRegExp (FeatureRiskConfig.pattern f) \<noteq> None) (features config)"
  proof -
    have "\<not> ?reached"
    proof
      assume ?reached
      then obtain before bad rest where "features config = before @ bad # rest"
        "newRegExp (FeatureRiskConfig.pattern bad) = None" by blast
      then show False using v by simp
    qed
    then show ?thesis using b by simp
  qed
  show ?thesis using a b c d by blast
qed

lemma RegExp_words_bracket: "RegExp_words ''('' = None"
  by (simp add: RegExp_words_def)

lemma RegExp_words_login_auth:
  "RegExp_words ''login|auth'' = Some (regex_test (alt (map lit_i [''login'', ''auth''])))"
  by (simp add: RegExp_words_def)

lemma login_auth_matches:
  "regex_test (alt (map lit_i [''login'', ''auth''])) ''Login page''"
  "\<not> regex_test (alt (map lit_i [''login'', ''auth''])) ''Product Catalog''"
  by code_simp+

text \<open>
  As the claim was stated it fails: with a first entry whose pattern is an opening bracket
  alone, the classification of a feature that the second entry would match throws.
\<close>

theorem malformed_pattern_counterexample:
  "classifyFeature RegExp_words (config_of [entry_broken, entry_auth]) ''Login page'' None
     = Inl SyntaxError"
  by (simp add: classifyFeature_def findMatchingConfig_def config_of_def entry_broken_def
      RegExp_words_bracket)

theorem malformed_pattern_propagates_witness:
  "RegExp_words (FeatureRiskConfig.pattern entry_broken) = None
   \<and> matching RegExp_words ''Login page'' entry_auth
   \<and> classifyFeature RegExp_words (config_of [entry_broken, entry_auth]) ''Login page'' None
       = Inl SyntaxError
   \<and> (\<exists>c. classifyFeature RegExp_words (config_of [entry_auth, entry_broken]) ''Login page'' None
             = Inr c
           \<and> RiskClassification.riskLevel c = critical)"
proof -
  have bad: "RegExp_words (FeatureRiskConfig.pattern entry_broken) = None"
    by (simp add: entry_broken_def RegExp_words_bracket)
  have hit: "matching RegExp_words ''Login page'' entry_auth"
    by code_simp
  have level: "FeatureRiskConfig.riskLevel entry_auth = critical"
    by (simp add: entry_auth_def)
  have reached: "\<exists>before bad rest.
      features (config_of [entry_broken, entry_auth]) = before @ bad # rest
      \<and> list_all (skipped RegExp_words ''Login page'') before
      \<and> RegExp_words (FeatureRiskConfig.pattern bad) = None"
  proof (intro exI conjI)
    show "features (config_of [entry_broken, entry_auth]) = [] @ entry_broken # [entry_auth]"
      by (simp add: config_of_def)
    show "list_all (skipped RegExp_words ''Login page'') []" by simp
    show "RegExp_words (FeatureRiskConfig.pattern entry_broken) = None" by (rule bad)
  qed
  have split: "features (config_of [entry_auth, entry_broken]) = [] @ entry_auth # [entry_broken]"
    "list_all (skipped RegExp_words ''Login page'') []"
    by (simp_all add: config_of_def)
  have thrown:
    "classifyFeature RegExp_words (config_of [entry_broken, entry_auth]) ''Login page'' None
       = Inl SyntaxError"
    using malformed_pattern_propagates
      [of RegExp_words "config_of [entry_broken, entry_auth]" "''Login page''" None] reached
    by blast
  have returned:
    "\<exists>c. classifyFeature RegExp_words (config_of [entry_auth, entry_broken]) ''Login page'' None
             = Inr c
         \<and> RiskClassification.riskLevel c = FeatureRiskConfig.riskLevel entry_auth"
    using malformed_pattern_propagates
      [of RegExp_words "config_of [entry_auth, entry_broken]" "''Login page''" None
          "[]" entry_auth "[entry_broken]"] split hit
    by blast
  show ?thesis using bad hit thrown returned level by simp
qed

lemma determineRiskLevel_cases:
  "(determineRiskLevel v = critical \<longleftrightarrow> 85 \<le> v)"
  "(determineRiskLevel v = high \<longleftrightarrow> 65 \<le> v \<and> v < 85)"
  "(determineRiskLevel v = medium \<longleftrightarrow> 40 \<le> v \<and> v < 65)"
  "(determineRiskLevel v = low \<longleftrightarrow> v < 40)"
  by (auto simp: determineRiskLevel_def)

text \<open>
  Claim C7. For every feature name that no configuration entry matches (every pattern
  compiles and none matches), and with no risk level supplied in the context,
  \<open>classifyFeature\<close> returns a classification whose risk level is derived from its risk
  score by the breakpoints: critical from 85, high from 65, medium from 40, low below.
  The four ranges partition the scores; 85 gives critical, 84 and 65 high, 64 and 40
  medium, 39 low.
\<close>

theorem risk_level_breakpoints:
  "(list_all (skipped newRegExp fname) (features config)
      \<and> Option.bind ctx PartialFeatureRiskConfig.riskLevel = None \<longrightarrow>
      (\<exists>c. classifyFeature newRegExp config fname ctx = Inr c
           \<and> RiskClassification.riskLevel c
               = determineRiskLevel (RiskClassification.riskScore c)))
   \<and> (determineRiskLevel v = critical \<longleftrightarrow> 85 \<le> v)
   \<and> (determineRiskLevel v = high \<longleftrightarrow> 65 \<le> v \<and> v < 85)
   \<and> (determineRiskLevel v = medium \<longleftrightarrow> 40 \<le> v \<and> v < 65)
   \<and> (determineRiskLevel v = low \<longleftrightarrow> v < 40)
   \<and> map determineRiskLevel [85, 84, 65, 64, 40, 39] = [critical, high, high, medium, medium, low]"
proof -
  have "\<exists>c. classifyFeature newRegExp config fname ctx = Inr c
           \<and> RiskClassification.riskLevel c
               = determineRiskLevel (RiskClassification.riskScore c)"
    if "list_all (skipped newRegExp fname) (features config)"
      "Option.bind ctx PartialFeatureRiskConfig.riskLevel = None"
    using classifyFeature_Inr [OF find_feature_none [OF that(1)], of ctx] that(2) by simp
  moreover have "map determineRiskLevel [85, 84, 65, 64, 40, 39]
                   = [critical, high, high, medium, medium, low]"
    by (simp add: determineRiskLevel_def)
  ultimately show ?thesis using determineRiskLevel_cases [of v] by blast
qed

lemma risk_score_defaults:
  "calculateRiskScore (calculateRiskFactors ''medium'' ''medium'' ''medium'') = 56"
  by (simp add: calculateRiskScore_def calculateRiskFactors_def description_of_def
      getImpactScore_def getComplexityScore_def getFrequencyScore_def Math_round_numeral)

theorem risk_level_breakpoints_witness:
  "list_all (skipped RegExp_words ''Product Catalog'') (features (config_of [entry_auth]))
   \<and> (\<exists>c. classifyFeature RegExp_words (config_of [entry_auth]) ''Product Catalog'' None = Inr c
           \<and> RiskClassification.riskScore c = 56
           \<and> RiskClassification.riskLevel c = medium)"
proof -
  have sk: "list_all (skipped RegExp_words ''Product Catalog'') (features (config_of [entry_auth]))"
    by code_simp
  have ctx: "Option.bind None PartialFeatureRiskConfig.riskLevel = None" by simp
  obtain c where c: "classifyFeature RegExp_words (config_of [entry_auth]) ''Product Catalog'' None = Inr c"
    and l: "RiskClassification.riskLevel c = determineRiskLevel (RiskClassification.riskScore c)"
    using risk_level_breakpoints [of RegExp_words "''Product Catalog''" "config_of [entry_auth]" None]
      sk ctx by blast
  have "find_feature RegExp_words (features (config_of [entry_auth])) ''Product Catalog'' = Inr None"
    using sk by (rule find_feature_none)
  then have "RiskClassification.riskScore c = 56"
    using c by (auto simp: classifyFeature_def findMatchingConfig_def Let_def risk_score_defaults)
  moreover have "determineRiskLevel 56 = medium" by (simp add: determineRiskLevel_def)
  ultimately show ?thesis using sk c l by simp
qed

subsection \<open>Test quality\<close>

lemma deduct_bound:
  "0 \<le> p \<Longrightarrow> fst st \<le> 100 \<Longrightarrow> fst (deduct c p sev cat msg st) \<le> 100"
  by (simp add: deduct_def)

lemma checkSyntax_range: "0 \<le> fst (checkSyntax t i) \<and> fst (checkSyntax t i) \<le> 100"
  by (simp add: checkSyntax_def Let_def deduct_bound)

lemma checkCoverage_range: "0 \<le> fst (checkCoverage t i) \<and> fst (checkCoverage t i) \<le> 100"
  by (simp add: checkCoverage_def Let_def deduct_bound)

lemma checkAssertions_range: "0 \<le> fst (checkAssertions t i) \<and> fst (checkAssertions t i) \<le> 100"
  by (simp add: checkAssertions_def Let_def deduct_bound)

lemma checkMaintainability_range:
  "0 \<le> fst (checkMaintainability t i) \<and> fst (checkMaintainability t i) \<le> 100"
  by (simp add: checkMaintainability_def Let_def deduct_bound)

lemma checkBestPractices_range:
  "0 \<le> fst (checkBestPractices t i) \<and> fst (checkBestPractices t i) \<le> 100"
  by (simp add: checkBestPractices_def Let_def deduct_bound)

lemma scoreTest_fields:
  "syntaxScore (scoreTest t) = fst (checkSyntax t [])"
  "coverageScore (scoreTest t) = fst (checkCoverage t (snd (checkSyntax t [])))"
  "assertionScore (scoreTest t)
     = fst (checkAssertions t (snd (checkCoverage t (snd (checkSyntax t [])))))"
  "maintainabilityScore (scoreTest t)
     = fst (checkMaintainability t
              (snd (checkAssertions t (snd (checkCoverage t (snd (checkSyntax t [])))))))"
  "bestPracticesScore (scoreTest t)
     = fst (checkBestPractices t
              (snd (checkMaintainability t
                 (snd (checkAssertions t (snd (checkCoverage t (snd (checkSyntax t [])))))))))"
  "QualityMetrics.overallScore (scoreTest t)
     = Math_round (syntaxScore (scoreTest t) * (20 / 100) + coverageScore (scoreTest t) * (25 / 100)
                   + assertionScore (scoreTest t) * (25 / 100)
                   + maintainabilityScore (scoreTest t) * (15 / 100)
                   + bestPracticesScore (scoreTest t) * (15 / 100))"
  by (simp_all add: scoreTest_def Let_def split_beta)

text \<open>
  Claim C5. For every source text, the five sub-scores of \<open>scoreTest\<close> (syntax, coverage,
  assertions, maintainability, best practices) lie between 0 and 100, and the overall
  score is \<open>round(0.20 syntax + 0.25 coverage + 0.25 assertions + 0.15 maintainability
  + 0.15 best practices)\<close>.
\<close>

theorem quality_vector_range:
  "(let q = scoreTest testCode
    in 0 \<le> syntaxScore q \<and> syntaxScore q \<le> 100
       \<and> 0 \<le> coverageScore q \<and> coverageScore q \<le> 100
       \<and> 0 \<le> assertionScore q \<and> assertionScore q \<le> 100
       \<and> 0 \<le> maintainabilityScore q \<and> maintainabilityScore q \<le> 100
       \<and> 0 \<le> bestPracticesScore q \<and> bestPracticesScore q \<le> 100
       \<and> QualityMetrics.overallScore q
           = Math_round ((20 / 100) * syntaxScore q + (25 / 100) * coverageScore q
                         + (25 / 100) * assertionScore q + (15 / 100) * maintainabilityScore q
                         + (15 / 100) * bestPracticesScore q))"
proof -
  have "QualityMetrics.overallScore (scoreTest testCode)
     = Math_round ((20 / 100) * syntaxScore (scoreTest testCode)
                   + (25 / 100) * coverageScore (scoreTest testCode)
                   + (25 / 100) * assertionScore (scoreTest testCode)
                   + (15 / 100) * maintainabilityScore (scoreTest testCode)
                   + (15 / 100) * bestPracticesScore (scoreTest testCode))"
    by (subst scoreTest_fields(6)) (simp add: mult.commute)
  then show ?thesis
    unfolding Let_def
    using checkSyntax_range checkCoverage_range checkAssertions_range
      checkMaintainability_range checkBestPractices_range
    by (simp only: scoreTest_fields(1-5))
qed

text \<open>
  The empty text has no suite, no test case and no assertion: the scores are 40, 50, 40,
  90 and 100, and the overall score is 59.
\<close>

theorem quality_vector_range_witness:
  "map (\<lambda>f. f (scoreTest ''''))
     [syntaxScore, coverageScore, assertionScore, maintainabilityScore, bestPracticesScore]
     = [40, 50, 40, 90, 100]
   \<and> QualityMetrics.overallScore (scoreTest '''') = 59"
proof -
  have scores: "map (\<lambda>f. f (scoreTest ''''))
     [syntaxScore, coverageScore, assertionScore, maintainabilityScore, bestPracticesScore]
     = [40, 50, 40, 90, 100]"
    by code_simp
  have "QualityMetrics.overallScore (scoreTest '''')
          = Math_round ((20 / 100) * 40 + (25 / 100) * 50 + (25 / 100) * 40 + (15 / 100) * 90
                        + (15 / 100) * 100)"
    using quality_vector_range [of "''''"] scores by (simp add: Let_def)
  also have "\<dots> = 59" by (simp add: Math_round_numeral)
  finally show ?thesis using scores by simp
qed

lemma take_prefix: "take (length xs) (xs @ ys) = xs"
  by simp

lemma it_description_shape:
  assumes "it_description u = Some n"
  shows "\<exists>q d q'. take n u = ''it('' @ q # d @ [q'] \<and> isQuote q \<and> isQuote q' \<and> d \<noteq> []
           \<and> list_all (\<lambda>c. \<not> isQuote c) d \<and> n = length d + 5"
proof -
  from assms have sw: "startsWith u ''it(''"
    by (auto simp: it_description_def split: if_splits)
  have pre: "startsWith u t \<Longrightarrow> u = t @ drop (length t) u" for t
    by (induction u t rule: startsWith.induct) auto
  from pre [OF sw] have u: "u = ''it('' @ drop 3 u" by (simp add: eval_nat_numeral)
  from assms sw obtain q r where r: "drop 3 u = q # r"
    by (cases "drop 3 u") (auto simp: it_description_def)
  let ?d = "takeWhile (\<lambda>c. \<not> isQuote c) r"
  from assms sw r have q: "isQuote q" and d: "?d \<noteq> []"
    and rest: "dropWhile (\<lambda>c. \<not> isQuote c) r \<noteq> []" and n: "n = 3 + 1 + length ?d + 1"
    by (auto simp: it_description_def Let_def split: if_splits)
  from rest obtain q' rest' where dw: "dropWhile (\<lambda>c. \<not> isQuote c) r = q' # rest'"
    by (cases "dropWhile (\<lambda>c. \<not> isQuote c) r") auto
  then have q': "isQuote q'" using hd_dropWhile [of "\<lambda>c. \<not> isQuote c" r] by auto
  have "r = ?d @ q' # rest'" using takeWhile_dropWhile_id [of "\<lambda>c. \<not> isQuote c" r] dw by simp
  then have "u = ''it('' @ q # ?d @ q' # rest'" using u r by simp
  then have "u = (''it('' @ q # ?d @ [q']) @ rest'" by simp
  moreover have "n = length (''it('' @ q # ?d @ [q'])" using n by simp
  ultimately have "take n u = ''it('' @ q # ?d @ [q']"
    using take_prefix [of "''it('' @ q # ?d @ [q']" rest'] by (simp only:)
  moreover have "list_all (\<lambda>c. \<not> isQuote c) ?d"
    by (auto simp: list_all_iff dest: set_takeWhileD)
  ultimately show ?thesis using q q' d n by auto
qed

lemma match_g_elem:
  "x \<in> set (match_g m k s) \<Longrightarrow> \<exists>u n. m u = Some n \<and> x = take n u"
proof (induction m k s rule: match_g.induct)
  case (1 m k)
  then show ?case by simp
next
  case (2 m k a s)
  then show ?case by simp
next
  case (3 m a s)
  then show ?case by (auto split: option.splits)
qed

text \<open>
  A match of the description pattern is \<open>it(\<close>, a quote, the text up to the next quote
  and that quote: five characters more than the text between the quotes. The issue is
  reported exactly when some match has at most 20 characters, that is when the text between
  the quotes of some match has at most 15.
\<close>

lemma description_match_length:
  assumes "x \<in> set (match_all it_description t)"
  shows "\<exists>q d q'. x = ''it('' @ q # d @ [q'] \<and> isQuote q \<and> isQuote q' \<and> d \<noteq> []
           \<and> list_all (\<lambda>c. \<not> isQuote c) d \<and> length x = length d + 5"
proof -
  from assms obtain u n where "it_description u = Some n" "x = take n u"
    unfolding match_all_def by (blast dest: match_g_elem)
  with it_description_shape [of u n] obtain q d q' where
    "x = ''it('' @ q # d @ [q']" "isQuote q" "isQuote q'" "d \<noteq> []"
    "list_all (\<lambda>c. \<not> isQuote c) d"
    by auto
  moreover from this have "length x = length d + 5" by simp
  ultimately show ?thesis by blast
qed

lemma description_issue_iff:
  "description_issue \<in> set (snd (checkMaintainability t []))
   \<longleftrightarrow> (\<exists>x \<in> set (match_all it_description t). length x \<le> 20)"
  by (auto simp: checkMaintainability_def Let_def deduct_def description_issue_def
      list_all_iff not_less)

text \<open>
  The pattern is not anchored at a word: it also matches where a longer name ends in
  \<open>it\<close>, as in \<open>cy.visit('/')\<close>, and such a match is measured like a description. A test
  with a description of 32 characters and that call is reported.
\<close>

lemma visit_call_reported:
  "match_all it_description long_description_test
     = [''it('shows the home page to a visitor'' @ [squote], ''it('/'' @ [squote]]
   \<and> length ''shows the home page to a visitor'' = 32
   \<and> checkMaintainability long_description_test [] = (95, [description_issue])"
  by code_simp

text \<open>
  Claim C6 says that the maintainability check deducts 5 points, with an issue of severity
  info, exactly when some test description is shorter than 20 characters. The code
  measures the whole match of the pattern, which is the description and five more
  characters (\<open>it(\<close> and the two quotes), and deducts when a match has at most 20
  characters. At the description \<open>logs the user in\<close>, of 16 characters, the claim asks
  for the deduction and the code makes none: the score is 100 and no issue is reported.
\<close>

theorem short_description_not_reported:
  "match_all it_description short_description_test = [''it('logs the user in'' @ [squote]]
   \<and> length ''logs the user in'' = 16
   \<and> checkMaintainability short_description_test [] = (100, [])"
  by code_simp

subsection \<open>Rejection statistics\<close>

lemma trendLoop_length: "length (trendLoop tza now ds n) = n"
  by (induction n) simp_all

lemma trendLoop_nth: "k < n \<Longrightarrow> trendLoop tza now ds n ! k = trendPoint tza now ds (n - 1 - k)"
proof (induction n arbitrary: k)
  case 0
  then show ?case by simp
next
  case (Suc n)
  then show ?case by (cases k) simp_all
qed

lemma trend_series_shape:
  "length (calculateTrendData tza now ds rs) = 30
   \<and> (\<forall>k < 30. calculateTrendData tza now ds rs ! k = trendPoint tza now ds (29 - k))"
  by (simp add: calculateTrendData_def trendLoop_length trendLoop_nth)

lemma trend_point_counts:
  "date (trendPoint tza now ds i) = isoDate (setDate_back tza now i)"
  "rejectionCount (trendPoint tza now ds i)
     = length (filter (\<lambda>d. \<not> approved d)
                 (filter (\<lambda>d. isoDate (reviewedAt d) = date (trendPoint tza now ds i)) ds))"
  "approvalCount (trendPoint tza now ds i)
     = length (filter (\<lambda>d. approved d)
                 (filter (\<lambda>d. isoDate (reviewedAt d) = date (trendPoint tza now ds i)) ds))"
  by (simp_all add: trendPoint_def Let_def)

lemma trend_point_rate_zero:
  assumes "\<forall>d \<in> set ds. isoDate (reviewedAt d) \<noteq> date (trendPoint tza now ds i)"
  shows "TrendDataPoint.rejectionRate (trendPoint tza now ds i) = 0"
proof -
  have "filter (\<lambda>d. isoDate (reviewedAt d) = isoDate (setDate_back tza now i)) ds = []"
    using assms by (simp add: filter_empty_conv trendPoint_def Let_def)
  then show ?thesis by (simp add: trendPoint_def Let_def)
qed

text \<open>
  On a host whose offset from UTC is constant, the entry for \<open>i\<close> days back is the UTC
  day \<open>i\<close> days before today's: the 30 dates are consecutive days, oldest first.
\<close>

lemma fixed_offset_days:
  assumes "\<forall>t b. tza t b = c"
  shows "setDate_back tza now i = now - int i * msPerDay"
    and "Day (setDate_back tza now i) = Day now - int i"
proof -
  show a: "setDate_back tza now i = now - int i * msPerDay"
    using assms by (simp add: setDate_back_def Let_def)
  have "(now + (- int i) * msPerDay) div msPerDay = (- int i) + now div msPerDay"
    by (rule div_mult_self1) (simp add: msPerDay_def)
  then show "Day (setDate_back tza now i) = Day now - int i"
    by (simp add: a Day_def)
qed

lemma new_york_days_back:
  "setDate_back new_york 1773185400000 29 = 1770683400000"
  "setDate_back new_york 1773185400000 3 = 1772929800000"
  "setDate_back new_york 1773185400000 2 = 1773012600000"
  "setDate_back new_york 1773185400000 0 = 1773185400000"
  by (simp_all add: setDate_back_def new_york_def msPerDay_def)

lemma civil_days:
  "civil 20494 = (2026, 2, 10)"
  "civil 20520 = (2026, 3, 8)"
  "civil 20522 = (2026, 3, 10)"
  by code_simp+

lemma isoDate_values:
  "isoDate 1770683400000 = ''2026-02-10''"
  "isoDate 1772929800000 = ''2026-03-08''"
  "isoDate 1773012600000 = ''2026-03-08''"
  "isoDate 1773185400000 = ''2026-03-10''"
  by (simp_all add: isoDate_def Day_def msPerDay_def civil_days padStart_def)

text \<open>
  Claim C9 says that the trend series has exactly 30 entries, one per calendar day of the
  preceding 30 days, oldest first, each counting the decisions of its date only, with the
  rate 0 on a day without decisions. The series always has 30 entries, and each entry
  counts the decisions whose UTC date is its own. But the days are stepped back in
  local time and written as UTC dates, so on a host that changes its offset within the
  window the dates are not one per day: in the zone of New York, at 2026-03-10T23:30:00Z,
  the entries for three and for two days back both carry 2026-03-08, and the 30 entries
  run from 2026-02-10 to 2026-03-10, which are 29 days.
\<close>

theorem trend_dates_repeat_across_dst:
  "length (calculateTrendData new_york 1773185400000 [] []) = 30
   \<and> date (calculateTrendData new_york 1773185400000 [] [] ! 0) = ''2026-02-10''
   \<and> date (calculateTrendData new_york 1773185400000 [] [] ! 26) = ''2026-03-08''
   \<and> date (calculateTrendData new_york 1773185400000 [] [] ! 27) = ''2026-03-08''
   \<and> date (calculateTrendData new_york 1773185400000 [] [] ! 29) = ''2026-03-10''"
proof -
  have "calculateTrendData new_york 1773185400000 [] [] ! 0
          = trendPoint new_york 1773185400000 [] 29"
    "calculateTrendData new_york 1773185400000 [] [] ! 26
          = trendPoint new_york 1773185400000 [] 3"
    "calculateTrendData new_york 1773185400000 [] [] ! 27
          = trendPoint new_york 1773185400000 [] 2"
    "calculateTrendData new_york 1773185400000 [] [] ! 29
          = trendPoint new_york 1773185400000 [] 0"
    using trend_series_shape [of new_york 1773185400000 "[]" "[]"] by simp_all
  then show ?thesis
    using trend_series_shape [of new_york 1773185400000 "[]" "[]"]
    by (simp add: trend_point_counts(1) new_york_days_back isoDate_values)
qed








end
